theory Spec2Isabelle
  imports Complex_Main "HOL-Library.Sublist"
begin

section \<open>JavaScript strings\<close>

text \<open>
  A JavaScript string is a sequence of UTF-16 code units; \<open>line[i]\<close>, \<open>includes\<close>,
  \<open>split\<close>, \<open>replace\<close> and \<open>trim\<close> all work on code units. A string is modelled
  as the list of its code units, each a natural number below 65536.
\<close>

type_synonym jstr = "nat list"

abbreviation js :: "string \<Rightarrow> jstr" where
  "js s \<equiv> map of_char s"

definition quote :: nat where "quote = 34"
definition comma :: nat where "comma = 44"
definition newline :: nat where "newline = 10"

text \<open>\<open>s.includes(sub)\<close>: \<open>sub\<close> occurs in \<open>s\<close> as a contiguous run.\<close>

fun includesStr :: "jstr \<Rightarrow> jstr \<Rightarrow> bool" where
  "includesStr [] sub = (sub = [])"
| "includesStr (c # cs) sub = (prefix sub (c # cs) \<or> includesStr cs sub)"

text \<open>\<open>str.replace(/"/g, '""')\<close>: every double quote is doubled.\<close>

fun doubleQuotes :: "jstr \<Rightarrow> jstr" where
  "doubleQuotes [] = []"
| "doubleQuotes (c # cs) = (if c = quote then quote # quote # doubleQuotes cs else c # doubleQuotes cs)"

text \<open>\<open>parts.join(sep)\<close>.\<close>

fun join :: "jstr \<Rightarrow> jstr list \<Rightarrow> jstr" where
  "join sep [] = []"
| "join sep [x] = x"
| "join sep (x # y # ys) = x @ sep @ join sep (y # ys)"

text \<open>\<open>s.split("\n")\<close>, for a separator of one code unit: the empty string splits
  into one empty piece, and a trailing separator leaves a last empty piece.\<close>

fun split :: "nat \<Rightarrow> jstr \<Rightarrow> jstr list" where
  "split sep [] = [[]]"
| "split sep (c # cs) =
     (if c = sep then [] # split sep cs
      else (case split sep cs of [] \<Rightarrow> [[c]] | x # xs \<Rightarrow> (c # x) # xs))"

text \<open>The code units that \<open>trim\<close> removes and that \<open>Number\<close> skips around a
  numeral: ECMAScript's WhiteSpace and LineTerminator.\<close>

definition isWhiteSpace :: "nat \<Rightarrow> bool" where
  "isWhiteSpace c \<longleftrightarrow>
     c \<in> {9, 10, 11, 12, 13, 32, 160, 5760, 8232, 8233, 8239, 8287, 12288, 65279}
     \<or> (8192 \<le> c \<and> c \<le> 8202)"

definition trim :: "jstr \<Rightarrow> jstr" where
  "trim s = rev (dropWhile isWhiteSpace (rev (dropWhile isWhiteSpace s)))"

text \<open>\<open>s.toLowerCase()\<close> on the letters A to Z. The source only asks whether the
  lowered line includes \<open>store\<close>, and the only code units that lower to one of
  s, t, o, r, e are these letters and their capitals.\<close>

definition toLowerCase :: "jstr \<Rightarrow> jstr" where
  "toLowerCase s = map (\<lambda>c. if 65 \<le> c \<and> c \<le> 90 then c + 32 else c) s"

section \<open>JavaScript numbers\<close>

text \<open>
  A JavaScript number is a binary64 value: NaN, an infinity, or a finite value, which is
  a rational \<open>m * 2 ^ p\<close> with \<open>\<bar>m\<bar> < 2 ^ 53\<close> and \<open>- 1074 \<le> p \<le> 971\<close>. \<open>Fin q\<close> holds
  the rational. The two zeros of binary64 are one value here: they print alike, are
  both falsy and multiply alike up to the sign of a zero.
\<close>

datatype number = NaN | Fin rat | PosInfinity | NegInfinity

text \<open>\<open>x || d\<close> on numbers: NaN and zero are falsy.\<close>

definition orElse :: "number \<Rightarrow> number \<Rightarrow> number" where
  "orElse x d = (if x = NaN \<or> x = Fin 0 then d else x)"

fun negate :: "number \<Rightarrow> number" where
  "negate NaN = NaN"
| "negate (Fin q) = Fin (- q)"
| "negate PosInfinity = NegInfinity"
| "negate NegInfinity = PosInfinity"

subsection \<open>Rounding to binary64\<close>

definition pow2 :: "int \<Rightarrow> rat" where
  "pow2 e = (if 0 \<le> e then 2 ^ nat e else 1 / 2 ^ nat (- e))"

definition pow10 :: "int \<Rightarrow> rat" where
  "pow10 e = (if 0 \<le> e then 10 ^ nat e else 1 / 10 ^ nat (- e))"

text \<open>The number of binary digits of \<open>n\<close>.\<close>

function bitLength :: "nat \<Rightarrow> nat" where
  "bitLength n = (if n = 0 then 0 else Suc (bitLength (n div 2)))"
  by pat_completeness auto
termination
  by (relation "measure id") auto

declare bitLength.simps [simp del]

text \<open>For \<open>q > 0\<close>, the \<open>e\<close> with \<open>2 ^ e \<le> q < 2 ^ (e + 1)\<close>.\<close>

definition binaryExponent :: "rat \<Rightarrow> int" where
  "binaryExponent q =
     (let (a, b) = quotient_of q;
          d = int (bitLength (nat a)) - int (bitLength (nat b))
      in if pow2 d \<le> q then d else d - 1)"

text \<open>The nearest integer, the even one of two that are equally near.\<close>

definition roundHalfEven :: "rat \<Rightarrow> int" where
  "roundHalfEven x =
     (let f = \<lfloor>x\<rfloor>; d = x - of_int f
      in if d < 1 / 2 then f else if 1 / 2 < d then f + 1 else if even f then f else f + 1)"

text \<open>Round to nearest, ties to even: the result is \<open>m * 2 ^ p\<close>, where \<open>2 ^ p\<close> is the
  place of the last binary digit kept, 52 places below the leading one and no lower
  than \<open>2 ^ - 1074\<close> (subnormals), and \<open>m\<close> is the nearest whole number of these. The
  largest double is \<open>(2 ^ 53 - 1) * 2 ^ 971\<close>: a result beyond it is infinite.\<close>

definition roundPositive :: "rat \<Rightarrow> number" where
  "roundPositive q =
     (let p = max (binaryExponent q - 52) (- 1074);
          m = roundHalfEven (q / pow2 p)
      in if 971 < p \<or> (p = 971 \<and> 2 ^ 53 \<le> m) then PosInfinity
         else Fin (of_int m * pow2 p))"

definition roundToDouble :: "rat \<Rightarrow> number" where
  "roundToDouble q =
     (if q = 0 then Fin 0
      else if q < 0 then negate (roundPositive (- q))
      else roundPositive q)"

text \<open>A \<open>Fin q\<close> whose \<open>q\<close> is not itself a double (a price written as \<open>1 / 10\<close>) is
  read as the double nearest \<open>q\<close>.\<close>

fun toDouble :: "number \<Rightarrow> number" where
  "toDouble (Fin q) = roundToDouble q"
| "toDouble x = x"

text \<open>\<open>a * b\<close>: the exact product of the two doubles, rounded.\<close>

fun infTimes :: "number \<Rightarrow> rat \<Rightarrow> number" where
  "infTimes x q = (if q = 0 then NaN else if 0 < q then x else negate x)"

fun product :: "number \<Rightarrow> number \<Rightarrow> number" where
  "product NaN b = NaN"
| "product a NaN = NaN"
| "product (Fin p) (Fin q) = roundToDouble (p * q)"
| "product (Fin p) PosInfinity = infTimes PosInfinity p"
| "product (Fin p) NegInfinity = infTimes NegInfinity p"
| "product PosInfinity (Fin q) = infTimes PosInfinity q"
| "product NegInfinity (Fin q) = infTimes NegInfinity q"
| "product PosInfinity PosInfinity = PosInfinity"
| "product PosInfinity NegInfinity = NegInfinity"
| "product NegInfinity PosInfinity = NegInfinity"
| "product NegInfinity NegInfinity = PosInfinity"

definition multiply :: "number \<Rightarrow> number \<Rightarrow> number" where
  "multiply a b = product (toDouble a) (toDouble b)"

subsection \<open>\<open>Number(text)\<close>: ECMAScript's StringToNumber\<close>

definition isDecimalDigit :: "nat \<Rightarrow> bool" where
  "isDecimalDigit c \<longleftrightarrow> 48 \<le> c \<and> c \<le> 57"

definition digitValue :: "nat \<Rightarrow> nat \<Rightarrow> nat option" where
  "digitValue radix c =
     (let v = (if 48 \<le> c \<and> c \<le> 57 then Some (c - 48)
               else if 97 \<le> c \<and> c \<le> 102 then Some (c - 87)
               else if 65 \<le> c \<and> c \<le> 70 then Some (c - 55)
               else None)
      in case v of None \<Rightarrow> None | Some d \<Rightarrow> if d < radix then Some d else None)"

fun digitsValue :: "nat \<Rightarrow> jstr \<Rightarrow> nat \<Rightarrow> nat option" where
  "digitsValue radix [] acc = Some acc"
| "digitsValue radix (c # cs) acc =
     (case digitValue radix c of
        None \<Rightarrow> None
      | Some d \<Rightarrow> digitsValue radix cs (acc * radix + d))"

text \<open>One or more digits of the radix, and nothing else.\<close>

definition parseDigits :: "nat \<Rightarrow> jstr \<Rightarrow> nat option" where
  "parseDigits radix s = (if s = [] then None else digitsValue radix s 0)"

definition decimalValue :: "jstr \<Rightarrow> nat" where
  "decimalValue s = foldl (\<lambda>acc c. acc * 10 + (c - 48)) 0 s"

text \<open>ExponentPart, or nothing: \<open>e\<close> or \<open>E\<close>, an optional sign, digits.\<close>

definition parseExponent :: "jstr \<Rightarrow> int option" where
  "parseExponent r =
     (case r of
        [] \<Rightarrow> Some 0
      | c # t \<Rightarrow>
          if c = 101 \<or> c = 69 then
            (case t of
               [] \<Rightarrow> None
             | s # u \<Rightarrow>
                 if s = 43 then map_option int (parseDigits 10 u)
                 else if s = 45 then map_option (\<lambda>n. - int n) (parseDigits 10 u)
                 else map_option int (parseDigits 10 t))
          else None)"

text \<open>StrUnsignedDecimalLiteral: \<open>Infinity\<close>, or digits with an optional fraction
  and exponent, with at least one digit before the exponent. Its value is the double
  nearest the numeral's mathematical value.\<close>

definition strUnsignedDecimal :: "jstr \<Rightarrow> number option" where
  "strUnsignedDecimal s =
     (if s = js ''Infinity'' then Some PosInfinity
      else
        let ip = takeWhile isDecimalDigit s;
            r1 = dropWhile isDecimalDigit s;
            hasDot = (case r1 of [] \<Rightarrow> False | c # _ \<Rightarrow> c = 46);
            fp = (if hasDot then takeWhile isDecimalDigit (tl r1) else []);
            r2 = (if hasDot then dropWhile isDecimalDigit (tl r1) else r1)
        in if ip = [] \<and> fp = [] then None
           else (case parseExponent r2 of
                   None \<Rightarrow> None
                 | Some e \<Rightarrow>
                     Some (roundToDouble
                             (of_nat (decimalValue (ip @ fp)) * pow10 (e - int (length fp))))))"

definition strDecimal :: "jstr \<Rightarrow> number option" where
  "strDecimal s =
     (case s of
        [] \<Rightarrow> None
      | c # t \<Rightarrow>
          if c = 43 then strUnsignedDecimal t
          else if c = 45 then map_option negate (strUnsignedDecimal t)
          else strUnsignedDecimal s)"

text \<open>NonDecimalIntegerLiteral: \<open>0b\<close>, \<open>0o\<close>, \<open>0x\<close> (either case) and digits.\<close>

definition nonDecimal :: "jstr \<Rightarrow> nat option" where
  "nonDecimal s =
     (case s of
        c # p # ds \<Rightarrow>
          if c \<noteq> 48 then None
          else if p = 98 \<or> p = 66 then parseDigits 2 ds
          else if p = 111 \<or> p = 79 then parseDigits 8 ds
          else if p = 120 \<or> p = 88 then parseDigits 16 ds
          else None
      | _ \<Rightarrow> None)"

definition Number :: "jstr \<Rightarrow> number" where
  "Number s =
     (let t = trim s
      in if t = [] then Fin 0
         else (case nonDecimal t of
                 Some n \<Rightarrow> roundToDouble (of_nat n)
               | None \<Rightarrow> (case strDecimal t of Some x \<Rightarrow> x | None \<Rightarrow> NaN)))"

subsection \<open>\<open>String(number)\<close>: ECMAScript's Number::toString, radix 10\<close>

function digitsOf :: "nat \<Rightarrow> jstr" where
  "digitsOf n = (if n < 10 then [48 + n] else digitsOf (n div 10) @ [48 + n mod 10])"
  by pat_completeness auto
termination
  by (relation "measure id") auto

declare digitsOf.simps [simp del]

function stripZeros :: "nat \<Rightarrow> nat \<Rightarrow> nat \<times> nat" where
  "stripZeros m z = (if m \<noteq> 0 \<and> m mod 10 = 0 then stripZeros (m div 10) (Suc z) else (m, z))"
  by pat_completeness auto
termination
  by (relation "measure fst") auto

declare stripZeros.simps [simp del]

text \<open>The digits \<open>ds\<close> of \<open>s\<close> and the position \<open>n\<close> of the decimal point, laid
  out as Number::toString does (steps 7 to 11).\<close>

definition layout :: "jstr \<Rightarrow> int \<Rightarrow> jstr" where
  "layout ds n =
     (let k = int (length ds)
      in if k \<le> n \<and> n \<le> 21 then ds @ replicate (nat (n - k)) 48
         else if 0 < n \<and> n \<le> 21 then take (nat n) ds @ js ''.'' @ drop (nat n) ds
         else if - 6 < n \<and> n \<le> 0 then js ''0.'' @ replicate (nat (- n)) 48 @ ds
         else
           let e = n - 1;
               expo = js ''e'' @ (if e < 0 then js ''-'' else js ''+'') @ digitsOf (nat \<bar>e\<bar>)
           in if k = 1 then ds @ expo
              else take 1 ds @ js ''.'' @ drop 1 ds @ expo)"

text \<open>For \<open>q > 0\<close>, the \<open>n\<close> with \<open>10 ^ (n - 1) \<le> q < 10 ^ n\<close>: the number of digits
  of the whole part, or for \<open>q < 1\<close> found by stepping down from 0 (a double is no
  smaller than \<open>2 ^ - 1074\<close>, which is above \<open>10 ^ - 324\<close>).\<close>

fun stepDown :: "nat \<Rightarrow> rat \<Rightarrow> int \<Rightarrow> int" where
  "stepDown 0 q n = n"
| "stepDown (Suc fuel) q n = (if q < pow10 (n - 1) then stepDown fuel q (n - 1) else n)"

definition decimalExponent :: "rat \<Rightarrow> int" where
  "decimalExponent q =
     (if 1 \<le> q then int (length (digitsOf (nat \<lfloor>q\<rfloor>))) else stepDown 400 q 0)"

text \<open>The decimal of \<open>k\<close> digits nearest \<open>q\<close>, as \<open>(s, x)\<close> for \<open>s * 10 ^ x\<close>.\<close>

definition nearestDecimal :: "nat \<Rightarrow> rat \<Rightarrow> nat \<times> int" where
  "nearestDecimal k q =
     (let x = decimalExponent q - int k
      in (nat (roundHalfEven (q / pow10 x)), x))"

text \<open>Number::toString, step 5: the digits \<open>s\<close> are as few as round back to the
  number, and of those the nearest to it. Seventeen digits always do.\<close>

fun shortest :: "nat \<Rightarrow> nat \<Rightarrow> rat \<Rightarrow> nat \<times> int" where
  "shortest 0 k q = nearestDecimal k q"
| "shortest (Suc fuel) k q =
     (let (s, x) = nearestDecimal k q
      in if roundToDouble (of_nat s * pow10 x) = Fin q then (s, x)
         else shortest fuel (Suc k) q)"

definition positiveToString :: "rat \<Rightarrow> jstr" where
  "positiveToString q =
     (let (s, x) = shortest 16 1 q;
          (t, z) = stripZeros s 0;
          ds = digitsOf t
      in layout ds (int (length ds) + int z + x))"

definition finiteToString :: "rat \<Rightarrow> jstr" where
  "finiteToString q =
     (if q = 0 then js ''0''
      else if q < 0 then js ''-'' @ positiveToString (- q)
      else positiveToString q)"

fun doubleToString :: "number \<Rightarrow> jstr" where
  "doubleToString NaN = js ''NaN''"
| "doubleToString PosInfinity = js ''Infinity''"
| "doubleToString NegInfinity = js ''-Infinity''"
| "doubleToString (Fin q) = finiteToString q"

definition numberToString :: "number \<Rightarrow> jstr" where
  "numberToString x = doubleToString (toDouble x)"

section \<open>The data model (lib/types.ts)\<close>

text \<open>An optional field (\<open>category?: string\<close>) is an option: None is
  \<open>undefined\<close>.\<close>

record LineItem =
  itemId :: jstr
  name :: jstr
  itemCategory :: jstr
  price :: number
  quantity :: number

record Receipt =
  receiptId :: jstr
  storeName :: jstr
  visitedAt :: jstr
  total :: number
  category :: "jstr option"
  tax :: "number option"
  note' :: "jstr option"
  imageData :: "jstr option"
  lineItems :: "LineItem list"
  createdAt :: jstr
  updatedAt :: jstr

record Category =
  categoryId :: jstr
  categoryName :: jstr
  color :: jstr

record Vault =
  receipts :: "Receipt list"
  categories :: "Category list"

section \<open>CSV export (lib/csv.ts)\<close>

text \<open>What a cell of a row holds before \<open>escapeCell\<close> turns it into text.\<close>

datatype cell = Undefined | Text jstr | Numeric number

text \<open>\<open>value === undefined || value === null ? '' : String(value)\<close>\<close>

fun cellString :: "cell \<Rightarrow> jstr" where
  "cellString Undefined = []"
| "cellString (Text s) = s"
| "cellString (Numeric x) = numberToString x"

definition escapeCell :: "cell \<Rightarrow> jstr" where
  "escapeCell v =
     (let str = cellString v
      in if includesStr str [quote] \<or> includesStr str [comma] \<or> includesStr str [newline]
         then [quote] @ doubleQuotes str @ [quote]
         else str)"

definition header :: "cell list" where
  "header = map Text
     [js ''date'', js ''store'', js ''store_category'', js ''item_name'', js ''item_category'',
      js ''quantity'', js ''unit_price'', js ''subtotal'', js ''receipt_total'', js ''note'']"

text \<open>\<open>x ?? ''\<close> on an optional string.\<close>

definition orEmpty :: "jstr option \<Rightarrow> jstr" where
  "orEmpty x = (case x of None \<Rightarrow> [] | Some s \<Rightarrow> s)"

text \<open>The callback of \<open>flatMap\<close>: the rows of one receipt.\<close>

definition receiptRows :: "Receipt \<Rightarrow> cell list list" where
  "receiptRows receipt =
     (if lineItems receipt = [] then
        [[Text (visitedAt receipt), Text (storeName receipt), Text (orEmpty (category receipt)),
          Text [], Text [], Text [], Text [], Text [],
          Numeric (total receipt), Text (orEmpty (note' receipt))]]
      else
        map (\<lambda>line.
              [Text (visitedAt receipt), Text (storeName receipt), Text (orEmpty (category receipt)),
               Text (name line), Text (itemCategory line), Numeric (quantity line),
               Numeric (price line), Numeric (multiply (price line) (quantity line)),
               Numeric (total receipt), Text (orEmpty (note' receipt))])
            (lineItems receipt))"

definition toCsv :: "Receipt list \<Rightarrow> jstr" where
  "toCsv rs =
     (let rows = concat (map receiptRows rs)
      in join [newline] (map (\<lambda>row. join [comma] (map escapeCell row)) (header # rows)))"

section \<open>CSV import (lib/csvImport.ts)\<close>

text \<open>The loop of \<open>parseCsvLine\<close> over \<open>i\<close> with its state \<open>result\<close>,
  \<open>current\<close>, \<open>inQuotes\<close>; the first argument is the part of the line from index
  \<open>i\<close> on. Reading \<open>line[i + 1]\<close> past the end gives \<open>undefined\<close>, which is not
  a quote.\<close>

fun parseLoop :: "jstr \<Rightarrow> jstr list \<Rightarrow> jstr \<Rightarrow> bool \<Rightarrow> jstr list" where
  "parseLoop [] result current inQuotes = result @ [current]"
| "parseLoop [c] result current inQuotes =
     (if c = quote then parseLoop [] result current (\<not> inQuotes)
      else if c = comma \<and> \<not> inQuotes then parseLoop [] (result @ [current]) [] inQuotes
      else parseLoop [] result (current @ [c]) inQuotes)"
| "parseLoop (c # d # rest) result current inQuotes =
     (if c = quote \<and> d = quote then parseLoop rest result (current @ [quote]) inQuotes
      else if c = quote then parseLoop (d # rest) result current (\<not> inQuotes)
      else if c = comma \<and> \<not> inQuotes then parseLoop (d # rest) (result @ [current]) [] inQuotes
      else parseLoop (d # rest) result (current @ [c]) inQuotes)"

definition parseCsvLine :: "jstr \<Rightarrow> jstr list" where
  "parseCsvLine line = parseLoop line [] [] False"

record Row =
  date :: jstr
  store :: jstr
  rowTotal :: number
  rowNote :: "jstr option"

text \<open>\<open>cols[i]\<close>: \<open>undefined\<close> past the end.\<close>

definition col :: "jstr list \<Rightarrow> nat \<Rightarrow> jstr option" where
  "col cols i = (if i < length cols then Some (cols ! i) else None)"

text \<open>The callback that turns a data line into a row.
  \<open>Number(cols[6] ?? cols[2] ?? 0) || 0\<close> and \<open>cols[7] || undefined\<close>: the empty
  string is falsy.\<close>

definition toRow :: "jstr \<Rightarrow> Row" where
  "toRow line =
     (let cols = parseCsvLine line
      in \<lparr> date = orEmpty (col cols 0),
           store = orEmpty (col cols 1),
           rowTotal = orElse (case col cols 6 of
                                Some s \<Rightarrow> Number s
                              | None \<Rightarrow> (case col cols 2 of Some s \<Rightarrow> Number s | None \<Rightarrow> Fin 0))
                             (Fin 0),
           rowNote = (case col cols 7 of None \<Rightarrow> None | Some s \<Rightarrow> if s = [] then None else Some s) \<rparr>)"

text \<open>The lines of the file, trimmed, blank ones dropped; a first line that has
  \<open>store\<close> in it, in any case, is taken for the header and skipped.\<close>

definition fileLines :: "jstr \<Rightarrow> jstr list" where
  "fileLines csv = filter (\<lambda>l. l \<noteq> []) (map trim (split newline csv))"

definition dataLines :: "jstr \<Rightarrow> jstr list" where
  "dataLines csv =
     (case fileLines csv of
        [] \<Rightarrow> []
      | first # rest \<Rightarrow> if includesStr (toLowerCase first) (js ''store'') then rest else first # rest)"

definition rowKey :: "Row \<Rightarrow> jstr" where
  "rowKey row =
     date row @ js ''||'' @ store row @ js ''||'' @ numberToString (rowTotal row)
       @ js ''||'' @ orEmpty (rowNote row)"

text \<open>The \<open>Map\<close> from key to row keeps its entries in insertion order: an
  association list, a new key added at the end.\<close>

fun groupRows :: "(jstr \<times> Row) list \<Rightarrow> Row list \<Rightarrow> (jstr \<times> Row) list" where
  "groupRows m [] = m"
| "groupRows m (row # rows) =
     (if rowKey row \<in> fst ` set m then groupRows m rows
      else groupRows (m @ [(rowKey row, row)]) rows)"

text \<open>The importer reads the clock and draws an id for each receipt it builds:
  \<open>clock k\<close> is what \<open>new Date().toISOString()\<close> returns the \<open>k\<close>-th time (from 0)
  and \<open>uuid k\<close> what \<open>crypto.randomUUID()\<close> does.\<close>

definition importDefaultStore :: jstr where
  "importDefaultStore = [12452, 12531, 12509, 12540, 12488]"

definition rowReceipt :: "jstr \<Rightarrow> jstr \<Rightarrow> Row \<Rightarrow> Receipt" where
  "rowReceipt now newId row =
     \<lparr> receiptId = newId,
       storeName = (if store row = [] then importDefaultStore else store row),
       visitedAt = (if date row = [] then take 10 now else date row),
       total = rowTotal row,
       category = None,
       tax = None,
       note' = rowNote row,
       imageData = None,
       lineItems = [],
       createdAt = now,
       updatedAt = now \<rparr>"

definition importCsvToReceipts :: "(nat \<Rightarrow> jstr) \<Rightarrow> (nat \<Rightarrow> jstr) \<Rightarrow> jstr \<Rightarrow> Receipt list" where
  "importCsvToReceipts clock uuid csv =
     (let rows = map toRow (dataLines csv);
          grouped = map snd (groupRows [] rows)
      in map (\<lambda>(k, row). rowReceipt (clock k) (uuid k) row) (enumerate 0 grouped))"

section \<open>The vault codec and the store (lib/crypto.ts, lib/db.ts)\<close>

type_synonym bytes = "nat list"

text \<open>
  The primitives that the browser supplies and the repository calls: AES-GCM and
  PBKDF2 of \<open>crypto.subtle\<close>, \<open>TextEncoder\<close> and \<open>TextDecoder\<close>, \<open>JSON\<close>,
  \<open>btoa\<close> and \<open>atob\<close>. They are parameters of the model. A decryption that
  fails its integrity check, a \<open>JSON.parse\<close> of text that is not JSON and an
  \<open>atob\<close> of text that is not base64 throw: they return None.
\<close>

record platform =
  aesGcmEncrypt :: "bytes \<Rightarrow> bytes \<Rightarrow> bytes \<Rightarrow> bytes"
  aesGcmDecrypt :: "bytes \<Rightarrow> bytes \<Rightarrow> bytes \<Rightarrow> bytes option"
  pbkdf2 :: "bytes \<Rightarrow> bytes \<Rightarrow> nat \<Rightarrow> nat \<Rightarrow> bytes"
  utf8Encode :: "jstr \<Rightarrow> bytes"
  utf8Decode :: "bytes \<Rightarrow> jstr"
  jsonStringify :: "Vault \<Rightarrow> jstr"
  jsonParse :: "jstr \<Rightarrow> Vault option"
  btoa :: "jstr \<Rightarrow> jstr"
  atob :: "jstr \<Rightarrow> jstr option"

datatype error = AuthenticationError | SyntaxError | InvalidCharacterError | StorageError

record VaultRecord =
  recordId :: jstr
  ciphertext :: bytes
  iv :: bytes
  version :: nat

record Session =
  key :: bytes
  vault :: Vault

record LineItemDraft =
  draftItemId :: jstr
  draftItemName :: jstr
  draftItemCategory :: jstr
  draftPrice :: jstr
  draftQuantity :: jstr

record ReceiptDraft =
  draftStoreName :: jstr
  draftVisitedAt :: jstr
  draftTotal :: jstr
  draftNote :: jstr
  draftCategory :: jstr
  draftImageData :: "jstr option"
  draftLineItems :: "LineItemDraft list"

text \<open>
  The state the handlers of App.tsx work on: the salt entry of \<open>localStorage\<close>, the
  one record of the object store, whether the store rejects the next \<open>put\<close> (a
  full or unavailable disk), and the React state of the component.
\<close>

record State =
  saltItem :: "jstr option"
  stored :: "VaultRecord option"
  putRejects :: bool
  session :: "Session option"
  draft :: ReceiptDraft
  unlockError :: "jstr option"
  unlocking :: bool
  saveImage :: bool
  ocrText :: jstr
  ocrProgress :: "number option"
  lastUploadedName :: "jstr option"
  expandedImages :: "jstr set"

definition loadVault :: "State \<Rightarrow> VaultRecord option" where
  "loadVault st = stored st"

definition saveVault :: "VaultRecord \<Rightarrow> State \<Rightarrow> error option \<times> State" where
  "saveVault record st =
     (if putRejects st then (Some StorageError, st)
      else (None, st\<lparr>stored := Some record\<rparr>))"

definition clearVault :: "State \<Rightarrow> State" where
  "clearVault st = st\<lparr>stored := None\<rparr>"

definition iterations :: nat where
  "iterations = 200000"

definition bytesToBase64 :: "platform \<Rightarrow> bytes \<Rightarrow> jstr" where
  "bytesToBase64 P bs = btoa P bs"

definition base64ToBytes :: "platform \<Rightarrow> jstr \<Rightarrow> bytes option" where
  "base64ToBytes P v = atob P v"

text \<open>\<open>if (stored) return ...\<close>: the empty string is falsy, like a missing entry.
  \<open>newSalt\<close> is what \<open>crypto.getRandomValues\<close> fills the 16 bytes with.\<close>

definition getOrCreateSalt :: "platform \<Rightarrow> bytes \<Rightarrow> State \<Rightarrow> (error + bytes) \<times> State" where
  "getOrCreateSalt P newSalt st =
     (case saltItem st of
        Some s \<Rightarrow>
          if s \<noteq> [] then
            (case base64ToBytes P s of None \<Rightarrow> (Inl InvalidCharacterError, st) | Some b \<Rightarrow> (Inr b, st))
          else (Inr newSalt, st\<lparr>saltItem := Some (bytesToBase64 P newSalt)\<rparr>)
      | None \<Rightarrow> (Inr newSalt, st\<lparr>saltItem := Some (bytesToBase64 P newSalt)\<rparr>))"

definition deriveKey :: "platform \<Rightarrow> jstr \<Rightarrow> bytes \<Rightarrow> bytes" where
  "deriveKey P passphrase salt = pbkdf2 P (utf8Encode P passphrase) salt iterations 256"

text \<open>\<open>nonce\<close> is what \<open>crypto.getRandomValues\<close> fills the 12 bytes of the IV
  with in this call.\<close>

definition encryptVault :: "platform \<Rightarrow> bytes \<Rightarrow> Vault \<Rightarrow> bytes \<Rightarrow> bytes \<times> bytes" where
  "encryptVault P nonce v k =
     (let dat = utf8Encode P (jsonStringify P v)
      in (aesGcmEncrypt P k nonce dat, nonce))"

definition decryptVault :: "platform \<Rightarrow> bytes \<Rightarrow> bytes \<Rightarrow> bytes \<Rightarrow> error + Vault" where
  "decryptVault P ct nonce k =
     (case aesGcmDecrypt P k nonce ct of
        None \<Rightarrow> Inl AuthenticationError
      | Some decrypted \<Rightarrow>
          (case jsonParse P (utf8Decode P decrypted) of
             None \<Rightarrow> Inl SyntaxError
           | Some v \<Rightarrow> Inr v))"

section \<open>The session manager (App.tsx)\<close>

definition defaultCategories :: "Category list" where
  "defaultCategories =
     [\<lparr>categoryId = js ''supermarket'', categoryName = [12473, 12540, 12497, 12540], color = js ''#3de0a2''\<rparr>,
      \<lparr>categoryId = js ''convenience'', categoryName = [12467, 12531, 12499, 12491], color = js ''#f59e0b''\<rparr>,
      \<lparr>categoryId = js ''drugstore'', categoryName = [12489, 12521, 12483, 12464, 12473, 12488, 12450],
        color = js ''#a78bfa''\<rparr>,
      \<lparr>categoryId = js ''restaurant'', categoryName = [39154, 39135, 24215], color = js ''#ef4444''\<rparr>,
      \<lparr>categoryId = js ''clothing'', categoryName = [34915, 26009, 21697, 24215], color = js ''#ec4899''\<rparr>,
      \<lparr>categoryId = js ''electronics'', categoryName = [23478, 38651, 12539, 38609, 36008],
        color = js ''#38bdf8''\<rparr>,
      \<lparr>categoryId = js ''medical'', categoryName = [21307, 30274, 12539, 34220, 23616], color = js ''#14b8a6''\<rparr>,
      \<lparr>categoryId = js ''entertainment'', categoryName = [23087, 27005], color = js ''#8b5cf6''\<rparr>,
      \<lparr>categoryId = js ''other'', categoryName = [12381, 12398, 20182], color = js ''#94a3b8''\<rparr>]"

definition createVault :: Vault where
  "createVault = \<lparr>receipts = [], categories = defaultCategories\<rparr>"

text \<open>\<open>now\<close> is the reading of \<open>new Date().toISOString()\<close>.\<close>

definition initialDraft :: "Category list \<Rightarrow> jstr \<Rightarrow> ReceiptDraft" where
  "initialDraft cats now =
     \<lparr> draftStoreName = [],
       draftVisitedAt = take 10 now,
       draftTotal = [],
       draftNote = [],
       draftCategory = (case cats of [] \<Rightarrow> [12381, 12398, 20182] | c # _ \<Rightarrow> categoryName c),
       draftImageData = None,
       draftLineItems = [] \<rparr>"

text \<open>A handler is an async function: it returns the state it leaves, with the error
  it rejects with, if any. \<open>persistVault\<close> encrypts, saves, and only then sets the
  session.\<close>

definition persistVault :: "platform \<Rightarrow> bytes \<Rightarrow> Vault \<Rightarrow> bytes \<Rightarrow> State \<Rightarrow> error option \<times> State" where
  "persistVault P nonce nextVault k st =
     (let (ct, n) = encryptVault P nonce nextVault k;
          (failure, st1) = saveVault \<lparr>recordId = js ''data'', ciphertext = ct, iv = n, version = 1\<rparr> st
      in case failure of
           Some e \<Rightarrow> (Some e, st1)
         | None \<Rightarrow> (None, st1\<lparr>session := Some \<lparr>key = k, vault = nextVault\<rparr>\<rparr>))"

definition unlockErrorMessage :: jstr where
  "unlockErrorMessage =
     [12497, 12473, 12501, 12524, 12540, 12474, 12364, 36949, 12358, 12363, 12487, 12540, 12479,
      12434, 24489, 21495, 12391, 12365, 12414, 12379, 12435, 12391, 12375, 12383, 12290]"

text \<open>The body of the \<open>try\<close> of \<open>handleUnlock\<close>: Inl is a throw, with the state at
  the throw. \<open>now\<close> is the clock's reading for the new draft.\<close>

definition unlockBody ::
  "platform \<Rightarrow> jstr \<Rightarrow> bytes \<Rightarrow> bytes \<Rightarrow> jstr \<Rightarrow> State \<Rightarrow> error option \<times> State" where
  "unlockBody P now newSalt nonce passphrase st =
     (case getOrCreateSalt P newSalt st of
        (Inl e, st1) \<Rightarrow> (Some e, st1)
      | (Inr salt, st1) \<Rightarrow>
          let k = deriveKey P passphrase salt
          in (case loadVault st1 of
                None \<Rightarrow>
                  let v = createVault
                  in (case persistVault P nonce v k st1 of
                        (Some e, st2) \<Rightarrow> (Some e, st2)
                      | (None, st2) \<Rightarrow> (None, st2\<lparr>draft := initialDraft (categories v) now\<rparr>))
              | Some rec \<Rightarrow>
                  (case decryptVault P (ciphertext rec) (iv rec) k of
                     Inl e \<Rightarrow> (Some e, st1)
                   | Inr v \<Rightarrow>
                       (None, st1\<lparr>session := Some \<lparr>key = k, vault = v\<rparr>,
                                    draft := initialDraft (categories v) now\<rparr>))))"

definition handleUnlock ::
  "platform \<Rightarrow> jstr \<Rightarrow> bytes \<Rightarrow> bytes \<Rightarrow> jstr \<Rightarrow> State \<Rightarrow> State" where
  "handleUnlock P now newSalt nonce passphrase st =
     (let st0 = st\<lparr>unlockError := None, unlocking := True\<rparr>;
          (thrown, st1) = unlockBody P now newSalt nonce passphrase st0;
          st2 = (case thrown of None \<Rightarrow> st1 | Some e \<Rightarrow> st1\<lparr>unlockError := Some unlockErrorMessage\<rparr>)
      in st2\<lparr>unlocking := False\<rparr>)"

definition handleLock :: "jstr \<Rightarrow> State \<Rightarrow> State" where
  "handleLock now st =
     st\<lparr>session := None, ocrText := [], ocrProgress := None, lastUploadedName := None,
        draft := initialDraft defaultCategories now\<rparr>"

definition untitledReceipt :: jstr where
  "untitledReceipt = [28961, 38988, 12398, 12524, 12471, 12540, 12488]"

definition draftLineItem :: "LineItemDraft \<Rightarrow> LineItem" where
  "draftLineItem item =
     \<lparr> itemId = draftItemId item,
       name = draftItemName item,
       itemCategory = draftItemCategory item,
       price = orElse (Number (draftPrice item)) (Fin 0),
       quantity = orElse (Number (draftQuantity item)) (Fin 1) \<rparr>"

text \<open>The receipt that \<open>handleSaveReceipt\<close> builds from the draft; \<open>now\<close> and
  \<open>newId\<close> are the readings of the clock and of \<open>crypto.randomUUID()\<close>.\<close>

definition draftReceipt :: "jstr \<Rightarrow> jstr \<Rightarrow> bool \<Rightarrow> ReceiptDraft \<Rightarrow> Receipt" where
  "draftReceipt now newId keepImage d =
     (let items = map draftLineItem (draftLineItems d);
          computedTotal = orElse (Number (draftTotal d)) (Fin 0)
      in \<lparr> receiptId = newId,
           storeName = (if draftStoreName d = [] then untitledReceipt else draftStoreName d),
           visitedAt = (if draftVisitedAt d = [] then take 10 now else draftVisitedAt d),
           total = computedTotal,
           category = Some (draftCategory d),
           tax = None,
           note' = (if draftNote d = [] then None else Some (draftNote d)),
           imageData = (if keepImage then draftImageData d else None),
           lineItems = items,
           createdAt = now,
           updatedAt = now \<rparr>)"

text \<open>The four mutations. \<open>clock 0\<close> is the first reading of the clock in the
  call, \<open>clock 1\<close> the next.\<close>

definition handleSaveReceipt ::
  "platform \<Rightarrow> (nat \<Rightarrow> jstr) \<Rightarrow> jstr \<Rightarrow> bytes \<Rightarrow> State \<Rightarrow> error option \<times> State" where
  "handleSaveReceipt P clock newId nonce st =
     (case session st of
        None \<Rightarrow> (None, st)
      | Some s \<Rightarrow>
          let receipt = draftReceipt (clock 0) newId (saveImage st) (draft st);
              nextVault = (vault s)\<lparr>receipts := receipt # receipts (vault s)\<rparr>
          in (case persistVault P nonce nextVault (key s) st of
                (Some e, st1) \<Rightarrow> (Some e, st1)
              | (None, st1) \<Rightarrow>
                  (None, st1\<lparr>draft := initialDraft (categories (vault s)) (clock 1),
                              ocrText := [], ocrProgress := None, lastUploadedName := None\<rparr>)))"

definition handleDeleteReceipt ::
  "platform \<Rightarrow> bytes \<Rightarrow> jstr \<Rightarrow> State \<Rightarrow> error option \<times> State" where
  "handleDeleteReceipt P nonce rid st =
     (case session st of
        None \<Rightarrow> (None, st)
      | Some s \<Rightarrow>
          let nextVault = (vault s)\<lparr>receipts := filter (\<lambda>r. receiptId r \<noteq> rid) (receipts (vault s))\<rparr>
          in persistVault P nonce nextVault (key s) st)"

definition handleImportCsv ::
  "platform \<Rightarrow> (nat \<Rightarrow> jstr) \<Rightarrow> (nat \<Rightarrow> jstr) \<Rightarrow> bytes \<Rightarrow> jstr \<Rightarrow> State \<Rightarrow> error option \<times> State" where
  "handleImportCsv P clock uuid nonce text st =
     (let imported = importCsvToReceipts clock uuid text
      in case session st of
           None \<Rightarrow> (None, st)
         | Some s \<Rightarrow>
             let nextVault = (vault s)\<lparr>receipts := imported @ receipts (vault s)\<rparr>
             in persistVault P nonce nextVault (key s) st)"

definition handleCleanupImages :: "platform \<Rightarrow> bytes \<Rightarrow> State \<Rightarrow> error option \<times> State" where
  "handleCleanupImages P nonce st =
     (case session st of
        None \<Rightarrow> (None, st)
      | Some s \<Rightarrow>
          let cleaned = map (\<lambda>r. r\<lparr>imageData := None\<rparr>) (receipts (vault s))
          in (case persistVault P nonce ((vault s)\<lparr>receipts := cleaned\<rparr>) (key s) st of
                (Some e, st1) \<Rightarrow> (Some e, st1)
              | (None, st1) \<Rightarrow> (None, st1\<lparr>expandedImages := {}\<rparr>)))"

section \<open>Notions used in the statements\<close>

text \<open>The rest of a line after a cell: nothing, or a comma and more.\<close>

definition cellEnd :: "jstr \<Rightarrow> bool" where
  "cellEnd rest \<longleftrightarrow> (case rest of [] \<Rightarrow> True | d # _ \<Rightarrow> d = comma)"

text \<open>A string made of double quotes only (the empty string is one).\<close>

definition onlyQuotes :: "jstr \<Rightarrow> bool" where
  "onlyQuotes c \<longleftrightarrow> set c \<subseteq> {quote}"

text \<open>What \<open>parseCsvLine\<close> reads back from the escaped form of a cell: the cell,
  but a cell of \<open>n > 0\<close> double quotes and nothing else comes back as \<open>n + 1\<close>
  double quotes.\<close>

definition parsedCell :: "jstr \<Rightarrow> jstr" where
  "parsedCell c = (if c \<noteq> [] \<and> onlyQuotes c then c @ [quote] else c)"

text \<open>The rows that are first with their key, in order; \<open>seen\<close> holds the keys
  met so far. This is the grouping as the specification words it.\<close>

fun firstPerKey :: "jstr list \<Rightarrow> Row list \<Rightarrow> Row list" where
  "firstPerKey seen [] = []"
| "firstPerKey seen (r # rs) =
     (if rowKey r \<in> set seen then firstPerKey seen rs
      else r # firstPerKey (seen @ [rowKey r]) rs)"

text \<open>The four fields of a row as a tuple.\<close>

definition rowTuple :: "Row \<Rightarrow> jstr \<times> jstr \<times> number \<times> jstr option" where
  "rowTuple r = (date r, store r, rowTotal r, rowNote r)"

text \<open>A total as the data model describes it: a whole number that is not negative.\<close>

definition nonNegativeInteger :: "number \<Rightarrow> bool" where
  "nonNegativeInteger x = (case x of Fin q \<Rightarrow> 0 \<le> q \<and> q = of_int \<lfloor>q\<rfloor> | _ \<Rightarrow> False)"

text \<open>What the vault codec needs from the browser for a vault, a key and a nonce: AES-GCM
  decrypts what it encrypted, UTF-8 decoding undoes the encoding of the vault's JSON
  text, and the vault is JSON-serializable: \<open>JSON.parse\<close> gives it back from its
  \<open>JSON.stringify\<close> text.\<close>

definition codecSound :: "platform \<Rightarrow> Vault \<Rightarrow> bytes \<Rightarrow> bytes \<Rightarrow> bool" where
  "codecSound P v k nonce \<longleftrightarrow>
     aesGcmDecrypt P k nonce (aesGcmEncrypt P k nonce (utf8Encode P (jsonStringify P v)))
       = Some (utf8Encode P (jsonStringify P v))
     \<and> utf8Decode P (utf8Encode P (jsonStringify P v)) = jsonStringify P v
     \<and> jsonParse P (jsonStringify P v) = Some v"

text \<open>What the salt needs: \<open>atob\<close> undoes \<open>btoa\<close> on it, and its base64 text is
  not empty.\<close>

definition base64Sound :: "platform \<Rightarrow> bytes \<Rightarrow> bool" where
  "base64Sound P b \<longleftrightarrow> atob P (btoa P b) = Some b \<and> btoa P b \<noteq> []"

text \<open>The salt entry of \<open>localStorage\<close> is only ever written by
  \<open>getOrCreateSalt\<close>: it is missing, or the base64 text of a salt.\<close>

definition saltKept :: "platform \<Rightarrow> State \<Rightarrow> bool" where
  "saltKept P st \<longleftrightarrow>
     (case saltItem st of
        None \<Rightarrow> True
      | Some s \<Rightarrow> \<exists>b. s = bytesToBase64 P b \<and> base64Sound P b)"

text \<open>The text that the importer reads the total of a line from: \<open>cols[6]\<close>, or
  \<open>cols[2]\<close> when the line has no seventh column, or none.\<close>

definition totalColumn :: "jstr \<Rightarrow> jstr option" where
  "totalColumn line = (case col (parseCsvLine line) 6 of Some t \<Rightarrow> Some t | None \<Rightarrow> col (parseCsvLine line) 2)"

section \<open>The export as the specification words it\<close>


text \<open>The header, in the documented column order.\<close>

definition specHeaderRow :: jstr where
  "specHeaderRow =
     js ''date,store,store_category,item_name,item_category,quantity,unit_price,subtotal,receipt_total,note''"






section \<open>Receipts that an export and import carry over\<close>

definition bar :: nat where "bar = 124"

text \<open>A date or store name that the importer reads back as it is: not empty (an empty one
  is replaced by a default), without a newline (the importer splits lines first),
  without \<open>|\<close> (the key text is joined with it) and not made of quotes only.\<close>

definition plainField :: "jstr \<Rightarrow> bool" where
  "plainField s \<longleftrightarrow> s \<noteq> [] \<and> newline \<notin> set s \<and> bar \<notin> set s \<and> \<not> onlyQuotes s"

text \<open>A receipt without line items whose date and store name are such fields, whose date
  does not start with white space (the importer trims lines), and whose category and
  note hold no newline.\<close>

definition exportable :: "Receipt \<Rightarrow> bool" where
  "exportable r \<longleftrightarrow>
     lineItems r = []
     \<and> plainField (visitedAt r) \<and> \<not> isWhiteSpace (hd (visitedAt r))
     \<and> plainField (storeName r)
     \<and> newline \<notin> set (orEmpty (category r))
     \<and> newline \<notin> set (orEmpty (note' r))"

definition dateStore :: "Receipt \<Rightarrow> jstr \<times> jstr" where
  "dateStore r = (visitedAt r, storeName r)"

text \<open>The line of a receipt without line items: date and store in front, the other eight
  cells behind; and the line as the importer holds it after trimming.\<close>

definition rowFront :: "Receipt \<Rightarrow> jstr" where
  "rowFront r = escapeCell (Text (visitedAt r)) @ comma # escapeCell (Text (storeName r))"

definition rowTail :: "Receipt \<Rightarrow> jstr" where
  "rowTail r = join [comma] (map escapeCell
     [Text (orEmpty (category r)), Text [], Text [], Text [], Text [], Text [],
      Numeric (total r), Text (orEmpty (note' r))])"

definition trimmedLine :: "Receipt \<Rightarrow> jstr" where
  "trimmedLine r = rowFront r @ comma # rev (dropWhile isWhiteSpace (rev (rowTail r)))"

section \<open>Sample inputs\<close>

text \<open>A clock, an id source and a small stand-in for the browser's primitives, on which
  the statements below are evaluated. The stand-in cipher prefixes key and nonce and
  checks them on the way back; its JSON knows the fresh vault only.\<close>

definition sampleClock :: "nat \<Rightarrow> jstr" where
  "sampleClock k = js ''2026-01-01T00:00:00.000Z''"

definition sampleUuid :: "nat \<Rightarrow> jstr" where
  "sampleUuid k = js ''id-'' @ digitsOf k"

definition samplePlatform :: platform where
  "samplePlatform =
     \<lparr> aesGcmEncrypt = (\<lambda>k nonce dat. k @ nonce @ dat),
       aesGcmDecrypt = (\<lambda>k nonce ct.
          if take (length k + length nonce) ct = k @ nonce
          then Some (drop (length k + length nonce) ct) else None),
       pbkdf2 = (\<lambda>pw salt iters bits. pw @ salt),
       utf8Encode = (\<lambda>s. s),
       utf8Decode = (\<lambda>b. b),
       jsonStringify = (\<lambda>v. if v = createVault then js ''{}'' else js ''?''),
       jsonParse = (\<lambda>s. if s = js ''{}'' then Some createVault else None),
       btoa = (\<lambda>b. 0 # b),
       atob = (\<lambda>s. case s of [] \<Rightarrow> None | c # b \<Rightarrow> if c = 0 then Some b else None) \<rparr>"

definition sampleLocked :: State where
  "sampleLocked =
     \<lparr> saltItem = None, stored = None, putRejects = False, session = None,
       draft = initialDraft defaultCategories (sampleClock 0),
       unlockError = None, unlocking = False, saveImage = False, ocrText = [],
       ocrProgress = None, lastUploadedName = None, expandedImages = {} \<rparr>"

definition sampleUnlocked :: State where
  "sampleUnlocked = sampleLocked\<lparr>session := Some \<lparr>key = [1, 2, 3], vault = createVault\<rparr>\<rparr>"

definition negativeDraft :: State where
  "negativeDraft = sampleUnlocked\<lparr>draft := (draft sampleUnlocked)\<lparr>draftTotal := js ''-5''\<rparr>\<rparr>"

definition collidingCsv :: jstr where
  "collidingCsv = js ''a||b,c\<newline>a,b||c''"

definition repeatedCsv :: jstr where
  "repeatedCsv = js ''2024-05-01,Shop,,,,,100,\<newline>2024-05-01,Shop,,,,,100,\<newline>2024-05-02,Shop,,,,,100,''"

definition negativeCsv :: jstr where
  "negativeCsv = js ''2024-05-01,Shop,,,,,-1.5,''"

definition sampleReceipt :: Receipt where
  "sampleReceipt =
     \<lparr> receiptId = js ''r-1'', storeName = js ''SuperMart'', visitedAt = js ''2024-05-01'',
       total = Fin 980, category = Some (js ''groceries''), tax = None, note' = None,
       imageData = None, lineItems = [], createdAt = js ''2024-05-01T10:00:00.000Z'',
       updatedAt = js ''2024-05-01T10:00:00.000Z'' \<rparr>"


section \<open>Cells: \<open>escapeCell\<close> against \<open>parseCsvLine\<close>\<close>

lemma includesStr_single: "includesStr s [c] \<longleftrightarrow> c \<in> set s"
  by (induction s) auto

lemma escapeCell_Text:
  "escapeCell (Text c) =
     (if quote \<in> set c \<or> comma \<in> set c \<or> newline \<in> set c
      then quote # doubleQuotes c @ [quote] else c)"
  by (simp add: escapeCell_def includesStr_single)

lemma parseLoop_comma:
  "parseLoop (comma # rest) res cur False = parseLoop rest (res @ [cur]) [] False"
  by (cases rest) (simp_all add: quote_def comma_def)

lemma parseLoop_plain_char:
  "c \<noteq> quote \<Longrightarrow> (c = comma \<longrightarrow> q) \<Longrightarrow>
   parseLoop (c # rest) res cur q = parseLoop rest res (cur @ [c]) q"
  by (cases rest) auto

lemma parseLoop_toggle:
  "(case rest of [] \<Rightarrow> True | d # _ \<Rightarrow> d \<noteq> quote) \<Longrightarrow>
   parseLoop (quote # rest) res cur q = parseLoop rest res cur (\<not> q)"
  by (cases rest) auto

lemma cellEnd_simps [simp]: "cellEnd []" "cellEnd (comma # r)"
  by (simp_all add: cellEnd_def)

text \<open>A cell written without quotes is read back unit by unit.\<close>

lemma parseLoop_unquoted:
  "quote \<notin> set c \<Longrightarrow> comma \<notin> set c \<Longrightarrow>
   parseLoop (c @ rest) res cur False = parseLoop rest res (cur @ c) False"
proof (induction c arbitrary: cur)
  case Nil
  then show ?case by simp
next
  case (Cons x xs)
  then have "parseLoop (x # (xs @ rest)) res cur False = parseLoop (xs @ rest) res (cur @ [x]) False"
    by (intro parseLoop_plain_char) auto
  with Cons show ?case by simp
qed

text \<open>Inside quotes, the doubled body and the closing quote give the cell back.\<close>

lemma parseLoop_quoted_body:
  "cellEnd rest \<Longrightarrow>
   parseLoop (doubleQuotes c @ quote # rest) res cur True = parseLoop rest res (cur @ c) False"
proof (induction c arbitrary: cur)
  case Nil
  then have "parseLoop (quote # rest) res cur True = parseLoop rest res cur (\<not> True)"
    by (intro parseLoop_toggle) (auto simp: cellEnd_def quote_def comma_def split: list.splits)
  then show ?case by simp
next
  case (Cons x xs)
  show ?case
  proof (cases "x = quote")
    case True
    then show ?thesis using Cons by simp
  next
    case False
    then have "parseLoop (x # (doubleQuotes xs @ quote # rest)) res cur True
       = parseLoop (doubleQuotes xs @ quote # rest) res (cur @ [x]) True"
      by (intro parseLoop_plain_char) auto
    then show ?thesis using False Cons by simp
  qed
qed

text \<open>The opening quote is where the parser goes wrong: it pairs the opening quote
  with a quote that starts the body, outside quotes as inside. The pairing repairs
  itself as soon as the body has another code unit, and never if it has none.\<close>

lemma parseLoop_quoted:
  "cellEnd rest \<Longrightarrow>
   parseLoop (quote # doubleQuotes c @ quote # rest) res cur False
     = parseLoop rest res (if onlyQuotes c then cur @ c @ [quote] else cur @ c) False"
proof (induction c arbitrary: cur)
  case Nil
  then show ?case by (simp add: onlyQuotes_def)
next
  case (Cons x xs)
  show ?case
  proof (cases "x = quote")
    case True
    then show ?thesis using Cons by (simp add: onlyQuotes_def)
  next
    case False
    have "parseLoop (quote # (x # doubleQuotes xs @ quote # rest)) res cur False
       = parseLoop (x # doubleQuotes xs @ quote # rest) res cur (\<not> False)"
      using False by (intro parseLoop_toggle) auto
    moreover have "x # doubleQuotes xs = doubleQuotes (x # xs)" using False by simp
    ultimately show ?thesis
      using False parseLoop_quoted_body[OF Cons.prems, of "x # xs" res cur]
      by (simp add: onlyQuotes_def)
  qed
qed

lemma parseLoop_cell:
  assumes "cellEnd rest"
  shows "parseLoop (escapeCell (Text c) @ rest) res cur False
           = parseLoop rest res (cur @ parsedCell c) False"
proof (cases "quote \<in> set c \<or> comma \<in> set c \<or> newline \<in> set c")
  case True
  then have "c \<noteq> []" by auto
  then show ?thesis
    using True parseLoop_quoted[OF assms, of c res cur]
    by (simp add: escapeCell_Text parsedCell_def)
next
  case False
  then have "\<not> (c \<noteq> [] \<and> onlyQuotes c)"
    by (cases c) (auto simp: onlyQuotes_def)
  then show ?thesis
    using False parseLoop_unquoted[of c rest res cur]
    by (auto simp add: escapeCell_Text parsedCell_def)
qed

lemma parseLoop_prepend: "parseLoop l (pre @ res) cur q = pre @ parseLoop l res cur q"
  by (induction l res cur q rule: parseLoop.induct) simp_all

lemma parseLoop_result: "parseLoop l res cur q = res @ parseLoop l [] cur q"
  using parseLoop_prepend[of l res "[]" cur q] by simp

lemma parseLoop_cells:
  "cells \<noteq> [] \<Longrightarrow>
   parseLoop (join [comma] (map (\<lambda>c. escapeCell (Text c)) cells)) res [] False
     = res @ map parsedCell cells"
proof (induction cells arbitrary: res rule: induct_list012)
  case 1
  then show ?case by simp
next
  case (2 x)
  then show ?case
    using parseLoop_cell[of "[]" x res "[]"] by simp
next
  case (3 x y zs)
  have "parseLoop (escapeCell (Text x) @ comma # join [comma] (map (\<lambda>c. escapeCell (Text c)) (y # zs))) res [] False
      = parseLoop (comma # join [comma] (map (\<lambda>c. escapeCell (Text c)) (y # zs))) res ([] @ parsedCell x) False"
    by (rule parseLoop_cell) simp
  also have "\<dots> = parseLoop (join [comma] (map (\<lambda>c. escapeCell (Text c)) (y # zs))) (res @ [parsedCell x]) [] False"
    by (simp add: parseLoop_comma)
  also have "\<dots> = (res @ [parsedCell x]) @ map parsedCell (y # zs)"
    using 3 by blast
  finally show ?case by simp
qed

text \<open>What a line of escaped cells parses to, whatever the cells are.\<close>

lemma parseCsvLine_escaped:
  "cells \<noteq> [] \<Longrightarrow>
   parseCsvLine (join [comma] (map (\<lambda>c. escapeCell (Text c)) cells)) = map parsedCell cells"
  using parseLoop_cells[of cells "[]"] by (simp add: parseCsvLine_def)

text \<open>Where the round trip of cells does hold: on every line of one or more cells
  none of which is made of double quotes only.\<close>

lemma csv_cells_roundtrip:
  assumes "cells \<noteq> []"
    and "\<forall>c \<in> set cells. newline \<notin> set c \<and> \<not> (c \<noteq> [] \<and> onlyQuotes c)"
  shows "parseCsvLine (join [comma] (map escapeCell (map Text cells))) = cells"
proof -
  have "map parsedCell cells = cells"
    using assms(2) by (induction cells) (auto simp: parsedCell_def)
  then show ?thesis
    using parseCsvLine_escaped[OF assms(1)] by (simp add: comp_def)
qed

section \<open>Evaluation\<close>

lemmas import_eval = dataLines_def fileLines_def trim_def isWhiteSpace_def newline_def toLowerCase_def
  toRow_def parseCsvLine_def col_def orEmpty_def orElse_def quote_def comma_def

text \<open>Small whole numbers and halves are doubles: rounding leaves them as they are.\<close>

lemma roundToDouble_exact:
  "roundToDouble 5 = Fin 5" "roundToDouble 100 = Fin 100" "roundToDouble (3 / 2) = Fin (3 / 2)"
  by code_simp+

lemmas Number_eval = Number_def trim_def isWhiteSpace_def nonDecimal_def strDecimal_def
  strUnsignedDecimal_def isDecimalDigit_def parseExponent_def decimalValue_def pow10_def parseDigits_def
  digitValue_def roundToDouble_exact

lemma digitsOf_small: "n < 10 \<Longrightarrow> digitsOf n = [48 + n]"
  by (simp add: digitsOf.simps)

lemma numberToString_100: "numberToString (Fin 100) = js ''100''"
  by code_simp

section \<open>The importer\<close>

text \<open>The \<open>Map\<close> of the importer holds the rows that are first with their key.\<close>

lemma groupRows_firstPerKey:
  "map snd (groupRows m rows) = map snd m @ firstPerKey (map fst m) rows"
  by (induction rows arbitrary: m) (auto simp: image_iff)

lemma firstPerKey_keys:
  "rowKey ` set (firstPerKey seen rows) = rowKey ` set rows - set seen"
  by (induction rows arbitrary: seen) auto

lemma firstPerKey_distinct: "distinct (map rowKey (firstPerKey seen rows))"
proof (induction rows arbitrary: seen)
  case Nil
  then show ?case by simp
next
  case (Cons r rs)
  have "rowKey r \<notin> rowKey ` set (firstPerKey (seen @ [rowKey r]) rs)"
    by (simp add: firstPerKey_keys)
  with Cons show ?case by simp
qed

lemma firstPerKey_first:
  "g \<in> set (firstPerKey seen rows) \<Longrightarrow> find (\<lambda>r. rowKey r = rowKey g) rows = Some g"
proof (induction rows arbitrary: seen)
  case Nil
  then show ?case by simp
next
  case (Cons r rs)
  show ?case
  proof (cases "rowKey r \<in> set seen")
    case True
    with Cons.prems have g: "g \<in> set (firstPerKey seen rs)" by simp
    then have "rowKey g \<in> rowKey ` set rs - set seen"
      using firstPerKey_keys[of seen rs] by blast
    with True have "rowKey r \<noteq> rowKey g" by auto
    with Cons.IH[OF g] show ?thesis by simp
  next
    case False
    show ?thesis
    proof (cases "g = r")
      case True
      then show ?thesis by simp
    next
      case ne: False
      with False Cons.prems have g: "g \<in> set (firstPerKey (seen @ [rowKey r]) rs)" by simp
      then have "rowKey g \<in> rowKey ` set rs - set (seen @ [rowKey r])"
        using firstPerKey_keys[of "seen @ [rowKey r]" rs] by blast
      then have "rowKey r \<noteq> rowKey g" by auto
      with Cons.IH[OF g] show ?thesis by simp
    qed
  qed
qed

lemma map_enumerate_nth:
  "map (\<lambda>(k, x). f k x) (enumerate 0 xs) = map (\<lambda>k. f k (xs ! k)) [0..<length xs]"
  by (rule nth_equalityI) (simp_all add: enumerate_eq_zip)

lemma importCsvToReceipts_eq:
  "importCsvToReceipts clock uuid csv =
     (let grouped = firstPerKey [] (map toRow (dataLines csv))
      in map (\<lambda>k. rowReceipt (clock k) (uuid k) (grouped ! k)) [0..<length grouped])"
  by (simp add: importCsvToReceipts_def Let_def groupRows_firstPerKey[of "[]", simplified] map_enumerate_nth)

lemma firstPerKey_length: "length (firstPerKey seen rows) \<le> length rows"
  by (induction rows arbitrary: seen) (auto intro: le_SucI)

lemma import_length: "length (importCsvToReceipts clock uuid csv) \<le> length (dataLines csv)"
  using firstPerKey_length[of "[]" "map toRow (dataLines csv)"]
  by (simp add: importCsvToReceipts_eq Let_def)

lemma firstPerKey_Nil_iff: "firstPerKey [] rows = [] \<longleftrightarrow> rows = []"
  by (cases rows) auto

lemma import_empty_iff:
  "importCsvToReceipts clock uuid csv = [] \<longleftrightarrow> dataLines csv = []"
  by (simp add: importCsvToReceipts_eq Let_def firstPerKey_Nil_iff)

lemma rowTotal_not_NaN: "rowTotal (toRow line) \<noteq> NaN"
  by (simp add: toRow_def Let_def orElse_def)

lemma import_total_not_NaN: "r \<in> set (importCsvToReceipts clock uuid csv) \<Longrightarrow> total r \<noteq> NaN"
proof -
  assume "r \<in> set (importCsvToReceipts clock uuid csv)"
  then obtain k where k: "k < length (firstPerKey [] (map toRow (dataLines csv)))"
      and r: "r = rowReceipt (clock k) (uuid k) (firstPerKey [] (map toRow (dataLines csv)) ! k)"
    by (auto simp: importCsvToReceipts_eq Let_def)
  define row where "row = firstPerKey [] (map toRow (dataLines csv)) ! k"
  have "row \<in> set (firstPerKey [] (map toRow (dataLines csv)))" "total r = rowTotal row"
    using k r by (simp_all add: row_def rowReceipt_def)
  moreover from this have "find (\<lambda>x. rowKey x = rowKey row) (map toRow (dataLines csv)) = Some row"
    using firstPerKey_first by blast
  then obtain line where "row = toRow line"
    by (auto simp: find_Some_iff)
  ultimately show ?thesis using rowTotal_not_NaN by simp
qed

lemma repeatedCsv_rows:
  "map toRow (dataLines repeatedCsv) =
     [\<lparr>date = js ''2024-05-01'', store = js ''Shop'', rowTotal = Fin 100, rowNote = None\<rparr>,
      \<lparr>date = js ''2024-05-01'', store = js ''Shop'', rowTotal = Fin 100, rowNote = None\<rparr>,
      \<lparr>date = js ''2024-05-02'', store = js ''Shop'', rowTotal = Fin 100, rowNote = None\<rparr>]"
  by (simp add: repeatedCsv_def import_eval Number_eval)

lemma repeatedCsv_grouped:
  "firstPerKey [] (map toRow (dataLines repeatedCsv)) =
     [\<lparr>date = js ''2024-05-01'', store = js ''Shop'', rowTotal = Fin 100, rowNote = None\<rparr>,
      \<lparr>date = js ''2024-05-02'', store = js ''Shop'', rowTotal = Fin 100, rowNote = None\<rparr>]"
  by (simp add: repeatedCsv_rows rowKey_def numberToString_100 orEmpty_def)

section \<open>The store and the session\<close>

text \<open>\<open>saveVault\<close> rejects exactly when the store rejects the write.\<close>

lemma saveVault_rejects: "fst (saveVault r st) \<noteq> None \<longleftrightarrow> putRejects st"
  by (simp add: saveVault_def)

text \<open>\<open>decryptVault\<close> fails with the authentication error exactly when the browser's
  AES-GCM does: the codec adds no check of its own.\<close>

lemma decryptVault_authentication:
  "decryptVault P ct nonce k = Inl AuthenticationError \<longleftrightarrow> aesGcmDecrypt P k nonce ct = None"
  by (simp add: decryptVault_def split: option.splits)

lemma persistVault_ok:
  "\<not> putRejects st \<Longrightarrow>
   persistVault P nonce v k st =
     (None, st\<lparr>stored := Some \<lparr>recordId = js ''data'', ciphertext = fst (encryptVault P nonce v k),
                                 iv = nonce, version = 1\<rparr>,
                session := Some \<lparr>key = k, vault = v\<rparr>\<rparr>)"
  by (simp add: persistVault_def saveVault_def encryptVault_def)

lemma persistVault_rejected:
  "putRejects st \<Longrightarrow> persistVault P nonce v k st = (Some StorageError, st)"
  by (simp add: persistVault_def saveVault_def encryptVault_def)

lemma getOrCreateSalt_again:
  assumes "getOrCreateSalt P newSalt st = (Inr salt, st1)" and "base64Sound P newSalt"
    and "saltItem st2 = saltItem st1"
  shows "getOrCreateSalt P newSalt2 st2 = (Inr salt, st2)"
  using assms
  by (auto simp: getOrCreateSalt_def base64Sound_def base64ToBytes_def bytesToBase64_def
      split: option.splits if_splits)

lemma getOrCreateSalt_frame:
  assumes "getOrCreateSalt P newSalt st = (r, st1)"
  shows "stored st1 = stored st \<and> putRejects st1 = putRejects st \<and> session st1 = session st
    \<and> unlockError st1 = unlockError st \<and> unlocking st1 = unlocking st"
  using assms
  by (auto simp: getOrCreateSalt_def split: option.splits if_splits)

lemma draftReceipt_total_not_NaN: "total (draftReceipt now newId keep d) \<noteq> NaN"
  by (simp add: draftReceipt_def Let_def orElse_def)

section \<open>The export\<close>



lemma header_line: "join [comma] (map escapeCell header) = specHeaderRow"
  by (simp add: header_def escapeCell_Text specHeaderRow_def quote_def comma_def newline_def)


section \<open>From the exported text back to rows\<close>

text \<open>Splitting undoes joining when no line holds a newline.\<close>

lemma split_plain: "sep \<notin> set a \<Longrightarrow> split sep a = [a]"
  by (induction a) auto

lemma split_append: "sep \<notin> set a \<Longrightarrow> split sep (a @ sep # rest) = a # split sep rest"
  by (induction a) auto

lemma split_join:
  "ls \<noteq> [] \<Longrightarrow> \<forall>l \<in> set ls. newline \<notin> set l \<Longrightarrow> split newline (join [newline] ls) = ls"
  by (induction ls rule: induct_list012) (simp_all add: split_plain split_append)

lemma set_doubleQuotes: "set (doubleQuotes s) = set s"
  by (induction s) auto

lemma escapeCell_no_newline: "newline \<notin> set (cellString v) \<Longrightarrow> newline \<notin> set (escapeCell v)"
  by (simp add: escapeCell_def Let_def set_doubleQuotes quote_def newline_def)

lemma join_no_newline:
  "\<forall>c \<in> set cells. newline \<notin> set c \<Longrightarrow> newline \<notin> set (join [comma] cells)"
  by (induction cells rule: induct_list012) (simp_all add: comma_def newline_def)

lemma digitsOf_digits: "set (digitsOf n) \<subseteq> {48..57}"
proof (induction n rule: digitsOf.induct)
  case (1 n)
  show ?case
  proof (cases "n < 10")
    case True
    then show ?thesis by (subst digitsOf.simps) auto
  next
    case False
    have "n mod 10 < 10" by simp
    then have "48 + n mod 10 \<in> {48..57}" by auto
    with False 1 show ?thesis by (subst digitsOf.simps) auto
  qed
qed

lemma digitsOf_no_newline: "newline \<notin> set (digitsOf n)"
  using digitsOf_digits[of n] by (auto simp: newline_def)

lemma layout_no_newline: "newline \<notin> set ds \<Longrightarrow> newline \<notin> set (layout ds n)"
  using digitsOf_no_newline
  by (auto simp: layout_def Let_def newline_def dest: in_set_takeD in_set_dropD)

lemma positiveToString_no_newline: "newline \<notin> set (positiveToString q)"
  by (simp add: positiveToString_def Let_def split_beta layout_no_newline digitsOf_no_newline)

lemma doubleToString_no_newline: "newline \<notin> set (doubleToString x)"
  by (cases x) (simp_all add: finiteToString_def positiveToString_no_newline, simp_all add: newline_def)

lemma numberToString_no_newline: "newline \<notin> set (numberToString x)"
  by (simp add: numberToString_def doubleToString_no_newline)

text \<open>Trimming a line that starts with a date leaves everything up to its last comma.\<close>

lemma dropWhile_append_stop:
  "\<not> P y \<Longrightarrow> dropWhile P (xs @ y # ys) = dropWhile P xs @ y # ys"
  by (induction xs) auto

lemma trim_keeps_front:
  assumes "a \<noteq> []" and "\<not> isWhiteSpace (hd a)" and "\<not> isWhiteSpace c"
  shows "trim (a @ c # t) = a @ c # rev (dropWhile isWhiteSpace (rev t))"
proof -
  from assms(1,2) have "dropWhile isWhiteSpace (a @ c # t) = a @ c # t"
    by (cases a) auto
  then show ?thesis
    using assms(3) by (simp add: trim_def dropWhile_append_stop)
qed

lemma receiptRows_line:
  "lineItems r = [] \<Longrightarrow>
   map (\<lambda>row. join [comma] (map escapeCell row)) (receiptRows r) = [rowFront r @ comma # rowTail r]"
  by (simp add: receiptRows_def rowFront_def rowTail_def)

lemma rowLine_no_newline:
  assumes "exportable r"
  shows "newline \<notin> set (rowFront r @ comma # rowTail r)"
proof -
  have "\<forall>c \<in> set (map escapeCell
     [Text (orEmpty (category r)), Text [], Text [], Text [], Text [], Text [],
      Numeric (total r), Text (orEmpty (note' r))]). newline \<notin> set c"
    using assms by (simp add: exportable_def escapeCell_no_newline numberToString_no_newline)
  then have "newline \<notin> set (rowTail r)"
    unfolding rowTail_def by (rule join_no_newline)
  moreover have "newline \<notin> set (escapeCell (Text (visitedAt r)))"
    "newline \<notin> set (escapeCell (Text (storeName r)))"
    using assms by (simp_all add: exportable_def plainField_def escapeCell_no_newline)
  ultimately show ?thesis by (simp add: rowFront_def comma_def newline_def)
qed

lemma escapeCell_hd:
  "c \<noteq> [] \<Longrightarrow> \<not> isWhiteSpace (hd c) \<Longrightarrow>
   escapeCell (Text c) \<noteq> [] \<and> \<not> isWhiteSpace (hd (escapeCell (Text c)))"
  by (simp add: escapeCell_Text isWhiteSpace_def quote_def)

lemma rowLine_trimmed:
  assumes "exportable r"
  shows "trim (rowFront r @ comma # rowTail r)
           = rowFront r @ comma # rev (dropWhile isWhiteSpace (rev (rowTail r)))"
proof -
  have "rowFront r \<noteq> []" "\<not> isWhiteSpace (hd (rowFront r))"
    using assms escapeCell_hd[of "visitedAt r"]
    by (auto simp: rowFront_def exportable_def plainField_def)
  moreover have "\<not> isWhiteSpace comma"
    by (simp add: isWhiteSpace_def comma_def)
  ultimately show ?thesis by (rule trim_keeps_front)
qed

lemma parsedCell_plain: "plainField c \<Longrightarrow> parsedCell c = c"
  by (simp add: plainField_def parsedCell_def)

lemma parse_front:
  "parseCsvLine (rowFront r @ comma # t)
     = parsedCell (visitedAt r) # parsedCell (storeName r) # parseLoop t [] [] False"
proof -
  have "parseLoop (escapeCell (Text (visitedAt r)) @ comma # escapeCell (Text (storeName r)) @ comma # t) [] [] False
      = parseLoop (comma # escapeCell (Text (storeName r)) @ comma # t) [] ([] @ parsedCell (visitedAt r)) False"
    by (rule parseLoop_cell) simp
  also have "\<dots> = parseLoop (escapeCell (Text (storeName r)) @ comma # t) [parsedCell (visitedAt r)] [] False"
    by (simp add: parseLoop_comma)
  also have "\<dots> = parseLoop (comma # t) [parsedCell (visitedAt r)] ([] @ parsedCell (storeName r)) False"
    by (rule parseLoop_cell) simp
  also have "\<dots> = parseLoop t [parsedCell (visitedAt r), parsedCell (storeName r)] [] False"
    by (simp add: parseLoop_comma)
  also have "\<dots> = [parsedCell (visitedAt r), parsedCell (storeName r)] @ parseLoop t [] [] False"
    by (rule parseLoop_result)
  finally show ?thesis by (simp add: parseCsvLine_def rowFront_def)
qed

lemma toRow_front:
  assumes "exportable r"
  shows "date (toRow (rowFront r @ comma # t)) = visitedAt r
       \<and> store (toRow (rowFront r @ comma # t)) = storeName r"
  using assms
  by (simp add: toRow_def Let_def parse_front col_def orEmpty_def parsedCell_plain exportable_def)

text \<open>Two key texts that are equal have the same date and store, when these hold no
  \<open>|\<close>.\<close>

lemma bar_split:
  "bar \<notin> set a \<Longrightarrow> bar \<notin> set b \<Longrightarrow> a @ bar # x = b @ bar # y \<Longrightarrow> a = b \<and> x = y"
proof (induction a arbitrary: b)
  case Nil
  then show ?case by (cases b) auto
next
  case (Cons c cs)
  then show ?case by (cases b) auto
qed

lemma rowKey_date_store:
  assumes "rowKey p = rowKey q"
    and "bar \<notin> set (date p)" "bar \<notin> set (store p)" "bar \<notin> set (date q)" "bar \<notin> set (store q)"
  shows "date p = date q \<and> store p = store q"
proof -
  have bb: "js ''||'' = [bar, bar]" by (simp add: bar_def)
  from assms(1) have "date p @ bar # (bar # store p @ bar # bar # numberToString (rowTotal p) @ bar # bar # orEmpty (rowNote p))
      = date q @ bar # (bar # store q @ bar # bar # numberToString (rowTotal q) @ bar # bar # orEmpty (rowNote q))"
    unfolding rowKey_def bb by simp
  from bar_split[OF assms(2,4) this]
  have d: "date p = date q"
    and "store p @ bar # (bar # numberToString (rowTotal p) @ bar # bar # orEmpty (rowNote p))
       = store q @ bar # (bar # numberToString (rowTotal q) @ bar # bar # orEmpty (rowNote q))"
    by simp_all
  from bar_split[OF assms(3,5) this(2)] d show ?thesis by simp
qed

lemma firstPerKey_all:
  "distinct (map rowKey rows) \<Longrightarrow> rowKey ` set rows \<inter> set seen = {} \<Longrightarrow> firstPerKey seen rows = rows"
  by (induction rows arbitrary: seen) auto

lemma includesStr_front: "includesStr (sub @ r) sub"
proof (cases "sub @ r")
  case Nil
  then show ?thesis by simp
next
  case (Cons a list)
  have "prefix sub (sub @ r)" by simp
  with Cons show ?thesis by simp
qed

lemma includesStr_skip: "includesStr s sub \<Longrightarrow> includesStr (a @ s) sub"
  by (induction a) auto

lemma header_has_store: "includesStr (toLowerCase specHeaderRow) (js ''store'')"
proof -
  have "toLowerCase specHeaderRow = js ''date,'' @ (js ''store'' @
      js '',store_category,item_name,item_category,quantity,unit_price,subtotal,receipt_total,note'')"
    by (simp add: specHeaderRow_def toLowerCase_def)
  then show ?thesis
    by (simp only: includesStr_skip includesStr_front)
qed

lemma distinct_map_finer:
  assumes "distinct (map g xs)"
    and "\<And>x y. x \<in> set xs \<Longrightarrow> y \<in> set xs \<Longrightarrow> h x = h y \<Longrightarrow> g x = g y"
  shows "distinct (map h xs)"
  using assms
proof (induction xs)
  case Nil
  show ?case by simp
next
  case (Cons x xs)
  have d: "distinct (map g xs)" and nx: "g x \<notin> g ` set xs"
    using Cons.prems(1) by simp_all
  have "h x \<notin> h ` set xs"
  proof
    assume "h x \<in> h ` set xs"
    then obtain y where y: "y \<in> set xs" and e: "h x = h y" ..
    have "g x = g y"
    proof (rule Cons.prems(2)[OF _ _ e])
      show "x \<in> set (x # xs)" by (rule list.set_intros(1))
      show "y \<in> set (x # xs)" using y by (rule list.set_intros(2))
    qed
    then have "g x \<in> g ` set xs" using y by (simp only: image_eqI)
    with nx show False ..
  qed
  moreover have "distinct (map h xs)"
  proof (rule Cons.IH[OF d])
    fix a b assume "a \<in> set xs" "b \<in> set xs" "h a = h b"
    then show "g a = g b"
      by (intro Cons.prems(2) list.set_intros(2))
  qed
  ultimately show ?case by (simp only: list.map distinct.simps set_map) simp
qed

lemma specHeaderRow_facts:
  "newline \<notin> set specHeaderRow" "trim specHeaderRow = specHeaderRow" "specHeaderRow \<noteq> []"
  by (simp_all add: specHeaderRow_def newline_def trim_def isWhiteSpace_def)

lemma toCsv_lines:
  assumes "\<forall>r \<in> set rs. exportable r"
  shows "toCsv rs = join [newline] (specHeaderRow # map (\<lambda>r. rowFront r @ comma # rowTail r) rs)"
proof -
  have "map (\<lambda>row. join [comma] (map escapeCell row)) (concat (map receiptRows rs))
      = map (\<lambda>r. rowFront r @ comma # rowTail r) rs"
    using assms by (induction rs) (simp_all add: receiptRows_line exportable_def)
  then show ?thesis
    by (simp add: toCsv_def Let_def header_line)
qed

lemma dataLines_toCsv:
  assumes "\<forall>r \<in> set rs. exportable r"
  shows "dataLines (toCsv rs) = map trimmedLine rs"
proof -
  have "split newline (toCsv rs) = specHeaderRow # map (\<lambda>r. rowFront r @ comma # rowTail r) rs"
  proof -
    have "\<forall>l \<in> set (specHeaderRow # map (\<lambda>r. rowFront r @ comma # rowTail r) rs). newline \<notin> set l"
      using assms rowLine_no_newline by (auto simp only: set_simps set_map specHeaderRow_facts)
    then show ?thesis
      unfolding toCsv_lines[OF assms] by (intro split_join) simp_all
  qed
  moreover have "map trim (map (\<lambda>r. rowFront r @ comma # rowTail r) rs) = map trimmedLine rs"
    using assms by (simp add: rowLine_trimmed trimmedLine_def)
  ultimately have "map trim (split newline (toCsv rs)) = specHeaderRow # map trimmedLine rs"
    by (simp add: specHeaderRow_facts)
  moreover have "filter (\<lambda>l. l \<noteq> []) (map trimmedLine rs) = map trimmedLine rs"
    by (induction rs) (simp_all add: trimmedLine_def)
  ultimately have "fileLines (toCsv rs) = specHeaderRow # map trimmedLine rs"
    by (simp add: fileLines_def specHeaderRow_facts)
  then show ?thesis
    using header_has_store by (simp only: dataLines_def list.case if_True)
qed

lemma sample_exportable: "exportable sampleReceipt"
  by (simp add: exportable_def plainField_def sampleReceipt_def onlyQuotes_def
      isWhiteSpace_def newline_def bar_def quote_def orEmpty_def)

lemma numberToString_980: "numberToString (Fin 980) = js ''980''"
  by code_simp


text \<open>The salt that an unlock uses: read from the entry, or created and written.\<close>

lemma salt_read_or_created:
  assumes "saltKept P st" and "base64Sound P newSalt"
  shows "\<exists>salt st1. getOrCreateSalt P newSalt st = (Inr salt, st1)
           \<and> (\<exists>s. saltItem st1 = Some s \<and> s \<noteq> [] \<and> base64ToBytes P s = Some salt)"
proof (cases "saltItem st")
  case None
  with assms(2) show ?thesis
    by (simp add: getOrCreateSalt_def base64Sound_def bytesToBase64_def base64ToBytes_def)
next
  case (Some s)
  with assms(1) obtain b where "s = bytesToBase64 P b" "base64Sound P b"
    by (auto simp: saltKept_def)
  with Some show ?thesis
    by (simp add: getOrCreateSalt_def base64Sound_def bytesToBase64_def base64ToBytes_def)
qed

text \<open>An unlock leaves the salt entry as \<open>getOrCreateSalt\<close> left it.\<close>

lemma unlockBody_salt:
  assumes "getOrCreateSalt P newSalt st = (r, st1)"
  shows "saltItem (snd (unlockBody P now newSalt nonce p st)) = saltItem st1"
  using assms
  by (auto simp: unlockBody_def persistVault_def saveVault_def encryptVault_def Let_def
      split: sum.splits option.splits prod.splits if_splits)

lemma handleUnlock_salt:
  assumes "getOrCreateSalt P newSalt st = (r, st1)"
  shows "saltItem (handleUnlock P now newSalt nonce p st) = saltItem st1"
proof -
  have "getOrCreateSalt P newSalt (st\<lparr>unlockError := None, unlocking := True\<rparr>)
      = (r, st1\<lparr>unlockError := None, unlocking := True\<rparr>)"
    using assms by (auto simp: getOrCreateSalt_def split: option.splits if_splits)
  from unlockBody_salt[OF this, of now nonce p]
  show ?thesis
    by (simp add: handleUnlock_def Let_def split_beta split: option.splits)
qed

lemma first_unlock_with_salt:
  assumes "loadVault st = None" and "\<not> putRejects st"
    and "getOrCreateSalt P newSalt st = (Inr salt, st1)"
    and "base64Sound P newSalt"
    and "codecSound P createVault (deriveKey P p salt) nonce"
  shows "let k = deriveKey P p salt;
             st' = handleUnlock P now newSalt nonce p st
         in session st' = Some \<lparr>key = k, vault = createVault\<rparr>
            \<and> receipts createVault = [] \<and> categories createVault = defaultCategories
            \<and> stored st' = Some \<lparr>recordId = js ''data'',
                                    ciphertext = fst (encryptVault P nonce createVault k),
                                    iv = nonce, version = 1\<rparr>
            \<and> unlockError st' = None
            \<and> session (handleUnlock P now2 newSalt2 nonce2 p (handleLock now1 st'))
                = Some \<lparr>key = k, vault = createVault\<rparr>"
proof -
  define k where "k = deriveKey P p salt"
  define st0 where "st0 = st\<lparr>unlockError := None, unlocking := True\<rparr>"
  define rec where "rec = \<lparr>recordId = js ''data'', ciphertext = fst (encryptVault P nonce createVault k),
                                    iv = nonce, version = 1\<rparr>"
  have g0: "getOrCreateSalt P newSalt st0 = (Inr salt, st1\<lparr>unlockError := None, unlocking := True\<rparr>)"
    using assms(3) by (auto simp: getOrCreateSalt_def st0_def split: option.splits if_splits)
  define st1' where "st1' = st1\<lparr>unlockError := None, unlocking := True\<rparr>"
  have fr: "stored st1' = None" "\<not> putRejects st1'"
    using getOrCreateSalt_frame[OF assms(3)] assms(1,2) by (simp_all add: st1'_def loadVault_def)
  have body: "unlockBody P now newSalt nonce p st0 =
      (None, st1'\<lparr>stored := Some rec, session := Some \<lparr>key = k, vault = createVault\<rparr>,
                   draft := initialDraft (categories createVault) now\<rparr>)"
    using g0 fr by (simp add: unlockBody_def loadVault_def persistVault_ok k_def rec_def st1'_def Let_def)
  define st' where "st' = handleUnlock P now newSalt nonce p st"
  have st': "st' = st1'\<lparr>stored := Some rec, session := Some \<lparr>key = k, vault = createVault\<rparr>,
                   draft := initialDraft (categories createVault) now, unlocking := False\<rparr>"
    using body by (simp add: st'_def handleUnlock_def st0_def Let_def)
  define st2 where "st2 = (handleLock now1 st')\<lparr>unlockError := None, unlocking := True\<rparr>"
  have "saltItem st2 = saltItem st1"
    by (simp add: st2_def handleLock_def st' st1'_def)
  from getOrCreateSalt_again[OF assms(3,4) this]
  have g2: "getOrCreateSalt P newSalt2 st2 = (Inr salt, st2)" .
  have s2: "stored st2 = Some rec" by (simp add: st2_def handleLock_def st')
  have dec: "decryptVault P (ciphertext rec) (iv rec) k = Inr createVault"
    using assms(5) by (simp add: rec_def codecSound_def encryptVault_def decryptVault_def k_def)
  have body2: "unlockBody P now2 newSalt2 nonce2 p st2 =
      (None, st2\<lparr>session := Some \<lparr>key = k, vault = createVault\<rparr>,
                  draft := initialDraft (categories createVault) now2\<rparr>)"
    using g2 s2 dec by (simp add: unlockBody_def loadVault_def k_def Let_def)
  have "session (handleUnlock P now2 newSalt2 nonce2 p (handleLock now1 st'))
                = Some \<lparr>key = k, vault = createVault\<rparr>"
    using body2 by (simp add: handleUnlock_def st2_def[symmetric] Let_def)
  then show ?thesis
    unfolding Let_def k_def[symmetric] st'_def[symmetric] rec_def[symmetric]
    by (simp add: st' st1'_def createVault_def)
qed

text \<open>When the store rejects the write of a first run, the unlock ends with the session
  as it was, nothing stored and the unlock error shown.\<close>

lemma first_unlock_rejected:
  assumes "loadVault st = None" and "putRejects st"
  shows "session (handleUnlock P now newSalt nonce p st) = session st
       \<and> stored (handleUnlock P now newSalt nonce p st) = None
       \<and> unlockError (handleUnlock P now newSalt nonce p st) = Some unlockErrorMessage"
  using assms
  by (auto simp: handleUnlock_def unlockBody_def getOrCreateSalt_def loadVault_def
      persistVault_rejected Let_def split: option.splits sum.splits)

text \<open>What the importer computes: one receipt for each distinct key text, built from
  the first row that has it; the \<open>k\<close>-th receipt has the \<open>k\<close>-th id drawn, the
  clock's reading as both timestamps and no line items; the caller puts the imported
  receipts in front of the receipts of the vault, as they are.\<close>

lemma import_groups_by_key_text:
  "(let rows = map toRow (dataLines csv);
        grouped = firstPerKey [] rows
    in importCsvToReceipts clock uuid csv
         = map (\<lambda>k. rowReceipt (clock k) (uuid k) (grouped ! k)) [0..<length grouped]
       \<and> distinct (map rowKey grouped)
       \<and> rowKey ` set grouped = rowKey ` set rows
       \<and> (\<forall>g \<in> set grouped. find (\<lambda>r. rowKey r = rowKey g) rows = Some g))
   \<and> (\<forall>r \<in> set (importCsvToReceipts clock uuid csv). lineItems r = [] \<and> createdAt r = updatedAt r)
   \<and> (session st = Some s \<and> \<not> putRejects st \<longrightarrow>
        (\<exists>st'. handleImportCsv P clock uuid nonce csv st = (None, st')
           \<and> session st' = Some \<lparr>key = key s,
                vault = (vault s)\<lparr>receipts := importCsvToReceipts clock uuid csv @ receipts (vault s)\<rparr>\<rparr>))"
proof -
  have 1: "importCsvToReceipts clock uuid csv
         = map (\<lambda>k. rowReceipt (clock k) (uuid k) (firstPerKey [] (map toRow (dataLines csv)) ! k))
             [0..<length (firstPerKey [] (map toRow (dataLines csv)))]"
    by (simp add: importCsvToReceipts_eq Let_def)
  have 2: "\<forall>r \<in> set (importCsvToReceipts clock uuid csv). lineItems r = [] \<and> createdAt r = updatedAt r"
    unfolding 1 by (auto simp: rowReceipt_def)
  have 3: "session st = Some s \<and> \<not> putRejects st \<longrightarrow>
        (\<exists>st'. handleImportCsv P clock uuid nonce csv st = (None, st')
           \<and> session st' = Some \<lparr>key = key s,
                vault = (vault s)\<lparr>receipts := importCsvToReceipts clock uuid csv @ receipts (vault s)\<rparr>\<rparr>)"
    by (simp add: handleImportCsv_def Let_def persistVault_ok)
  show ?thesis
    unfolding Let_def
    using 1 2 3 firstPerKey_distinct[of "[]"] firstPerKey_first[of _ "[]"]
      firstPerKey_keys[of "[]" "map toRow (dataLines csv)"]
    by (intro conjI ballI) (simp_all only: set_simps Diff_empty)
qed

text \<open>What does come back from an export and import: the dates and store names of
  receipts without line items, when the fields are well-formed and no two receipts
  are alike in both.\<close>

lemma export_import_dates_stores:
  assumes "\<forall>r \<in> set rs. exportable r" and "distinct (map dateStore rs)"
  shows "map dateStore (importCsvToReceipts clock uuid (toCsv rs)) = map dateStore rs"
proof -
  define rows where "rows = map (\<lambda>r. toRow (trimmedLine r)) rs"
  have rows: "map toRow (dataLines (toCsv rs)) = rows"
    by (simp add: dataLines_toCsv[OF assms(1)] rows_def)
  have ds: "\<And>r. r \<in> set rs \<Longrightarrow>
      date (toRow (trimmedLine r)) = visitedAt r \<and> store (toRow (trimmedLine r)) = storeName r"
    using assms(1) by (simp add: trimmedLine_def toRow_front)
  have "distinct (map (\<lambda>r. rowKey (toRow (trimmedLine r))) rs)"
  proof (rule distinct_map_finer[OF assms(2)])
    fix x y assume xy: "x \<in> set rs" "y \<in> set rs"
      and k: "rowKey (toRow (trimmedLine x)) = rowKey (toRow (trimmedLine y))"
    have "bar \<notin> set (visitedAt x)" "bar \<notin> set (storeName x)" "bar \<notin> set (visitedAt y)" "bar \<notin> set (storeName y)"
      using assms(1) xy by (simp_all add: exportable_def plainField_def)
    with rowKey_date_store[OF k] ds[OF xy(1)] ds[OF xy(2)]
    show "dateStore x = dateStore y" by (simp add: dateStore_def)
  qed
  then have "distinct (map rowKey rows)"
    by (simp add: rows_def comp_def)
  then have "firstPerKey [] rows = rows"
    by (rule firstPerKey_all) simp
  then have "importCsvToReceipts clock uuid (toCsv rs)
      = map (\<lambda>k. rowReceipt (clock k) (uuid k) (rows ! k)) [0..<length rows]"
    by (simp add: importCsvToReceipts_eq Let_def rows)
  moreover have "map dateStore (map (\<lambda>k. rowReceipt (clock k) (uuid k) (rows ! k)) [0..<length rows])
      = map dateStore rs"
  proof (rule nth_equalityI)
    show "length (map dateStore (map (\<lambda>k. rowReceipt (clock k) (uuid k) (rows ! k)) [0..<length rows]))
        = length (map dateStore rs)"
      by (simp add: rows_def)
  next
    fix i assume "i < length (map dateStore (map (\<lambda>k. rowReceipt (clock k) (uuid k) (rows ! k)) [0..<length rows]))"
    then have i: "i < length rs" by (simp add: rows_def)
    then have m: "rs ! i \<in> set rs" by simp
    then have ne: "visitedAt (rs ! i) \<noteq> []" "storeName (rs ! i) \<noteq> []"
      using assms(1) by (auto simp: exportable_def plainField_def)
    show "map dateStore (map (\<lambda>k. rowReceipt (clock k) (uuid k) (rows ! k)) [0..<length rows]) ! i
        = map dateStore rs ! i"
      using i ds[OF m] ne by (simp add: rows_def dateStore_def rowReceipt_def)
  qed
  ultimately show ?thesis by simp
qed

text \<open>The total of a row and of a draft's receipt, as read from the text.\<close>

lemma rowTotal_read:
  "rowTotal (toRow line) =
     (case totalColumn line of None \<Rightarrow> Fin 0 | Some t \<Rightarrow> if Number t = NaN then Fin 0 else Number t)"
  by (simp add: toRow_def totalColumn_def Let_def orElse_def split: option.splits)

lemma draftReceipt_total:
  "total (draftReceipt now newId keep d) =
     (if Number (draftTotal d) = NaN then Fin 0 else Number (draftTotal d))"
  by (simp add: draftReceipt_def Let_def orElse_def)

lemma import_total_read:
  assumes "r \<in> set (importCsvToReceipts clock uuid csv)"
  shows "\<exists>line \<in> set (dataLines csv).
           total r = (case totalColumn line of
                        None \<Rightarrow> Fin 0
                      | Some t \<Rightarrow> if Number t = NaN then Fin 0 else Number t)"
proof -
  from assms obtain k where k: "k < length (firstPerKey [] (map toRow (dataLines csv)))"
      and r: "r = rowReceipt (clock k) (uuid k) (firstPerKey [] (map toRow (dataLines csv)) ! k)"
    by (auto simp: importCsvToReceipts_eq Let_def)
  define row where "row = firstPerKey [] (map toRow (dataLines csv)) ! k"
  have "row \<in> set (firstPerKey [] (map toRow (dataLines csv)))" and t: "total r = rowTotal row"
    using k r by (simp_all add: row_def rowReceipt_def)
  then have "find (\<lambda>x. rowKey x = rowKey row) (map toRow (dataLines csv)) = Some row"
    using firstPerKey_first by blast
  then have "row \<in> set (map toRow (dataLines csv))"
    by (auto simp: find_Some_iff)
  then obtain line where "line \<in> set (dataLines csv)" "row = toRow line"
    by auto
  with t show ?thesis
    using rowTotal_read by auto
qed

section \<open>The claims\<close>

text \<open>
  C1. A vault that is JSON-serializable, encrypted by \<open>encryptVault\<close> under a key and
  decrypted by \<open>decryptVault\<close> under the same key, comes back as it was. The three
  facts about the browser's primitives that this rests on are the hypothesis.
\<close>

theorem vault_roundtrip:
  assumes "codecSound P v k nonce"
  shows "(case encryptVault P nonce v k of (ct, n) \<Rightarrow> decryptVault P ct n k) = Inr v"
  using assms by (simp add: codecSound_def encryptVault_def decryptVault_def)

text \<open>
  The round trip on the stand-in primitives, for the fresh vault.
\<close>

theorem vault_roundtrip_witness:
  "(case encryptVault samplePlatform [9] createVault [1, 2, 3] of
      (ct, n) \<Rightarrow> decryptVault samplePlatform ct n [1, 2, 3]) = Inr createVault"
proof -
  have "codecSound samplePlatform createVault [1, 2, 3] [9]"
    by (simp add: codecSound_def samplePlatform_def)
  from vault_roundtrip[OF this] show ?thesis .
qed

text \<open>
  C3. When the store rejects the write, each of the four mutations (add a receipt,
  delete one, import a CSV file, clean up images) rejects with the storage error and
  leaves the whole state, and so the session and its vault, exactly as it was.
\<close>

theorem mutation_atomic:
  assumes "session st = Some s" and "putRejects st"
  shows "handleSaveReceipt P clock newId nonce st = (Some StorageError, st)
       \<and> handleDeleteReceipt P nonce rid st = (Some StorageError, st)
       \<and> handleImportCsv P clock uuid nonce csv st = (Some StorageError, st)
       \<and> handleCleanupImages P nonce st = (Some StorageError, st)"
  using assms
  by (simp add: handleSaveReceipt_def handleDeleteReceipt_def handleImportCsv_def
      handleCleanupImages_def persistVault_rejected Let_def)

text \<open>
  The four mutations on an unlocked session whose store rejects the write.
\<close>

theorem mutation_atomic_witness:
  "session (snd (handleSaveReceipt samplePlatform sampleClock (sampleUuid 0) [9]
       (sampleUnlocked\<lparr>putRejects := True\<rparr>)))
     = Some \<lparr>key = [1, 2, 3], vault = createVault\<rparr>
   \<and> session (snd (handleDeleteReceipt samplePlatform [9] (js ''id-0'')
       (sampleUnlocked\<lparr>putRejects := True\<rparr>)))
     = Some \<lparr>key = [1, 2, 3], vault = createVault\<rparr>
   \<and> session (snd (handleImportCsv samplePlatform sampleClock sampleUuid [9] repeatedCsv
       (sampleUnlocked\<lparr>putRejects := True\<rparr>)))
     = Some \<lparr>key = [1, 2, 3], vault = createVault\<rparr>
   \<and> session (snd (handleCleanupImages samplePlatform [9]
       (sampleUnlocked\<lparr>putRejects := True\<rparr>)))
     = Some \<lparr>key = [1, 2, 3], vault = createVault\<rparr>"
proof -
  have s: "session (sampleUnlocked\<lparr>putRejects := True\<rparr>) = Some \<lparr>key = [1, 2, 3], vault = createVault\<rparr>"
    and r: "putRejects (sampleUnlocked\<lparr>putRejects := True\<rparr>)"
    by (simp_all add: sampleUnlocked_def sampleLocked_def)
  from mutation_atomic[OF s r, of samplePlatform sampleClock "sampleUuid 0" "[9]" "js ''id-0''" sampleUuid repeatedCsv] s
  show ?thesis by simp
qed

text \<open>
  C4. On a first run there is no stored record. When the store takes the write, the
  salt entry is as the application left it and the browser's primitives are sound,
  unlocking with a passphrase builds the vault with no receipts and the default
  categories, stores its encryption under the key derived from the passphrase and the
  persisted salt as the one record, and holds key and vault in the session; after a
  lock, a second unlock with the same passphrase decrypts that record to the same
  vault.
\<close>

theorem first_unlock:
  assumes "loadVault st = None" and "\<not> putRejects st"
    and "saltKept P st" and "base64Sound P newSalt"
    and "\<forall>k. codecSound P createVault k nonce"
  shows "\<exists>salt s.
           saltItem (handleUnlock P now newSalt nonce p st) = Some s \<and> s \<noteq> []
           \<and> base64ToBytes P s = Some salt
           \<and> session (handleUnlock P now newSalt nonce p st)
               = Some \<lparr>key = deriveKey P p salt, vault = createVault\<rparr>
           \<and> receipts createVault = [] \<and> categories createVault = defaultCategories
           \<and> stored (handleUnlock P now newSalt nonce p st)
               = Some \<lparr>recordId = js ''data'',
                        ciphertext = fst (encryptVault P nonce createVault (deriveKey P p salt)),
                        iv = nonce, version = 1\<rparr>
           \<and> unlockError (handleUnlock P now newSalt nonce p st) = None
           \<and> session (handleUnlock P now2 newSalt2 nonce2 p
                  (handleLock now1 (handleUnlock P now newSalt nonce p st)))
               = Some \<lparr>key = deriveKey P p salt, vault = createVault\<rparr>"
proof -
  obtain salt st1 where g: "getOrCreateSalt P newSalt st = (Inr salt, st1)"
    and item: "\<exists>s. saltItem st1 = Some s \<and> s \<noteq> [] \<and> base64ToBytes P s = Some salt"
    using salt_read_or_created[OF assms(3,4)] by blast
  have c: "codecSound P createVault (deriveKey P p salt) nonce"
    using assms(5) by blast
  have kept: "saltItem (handleUnlock P now newSalt nonce p st) = saltItem st1"
    using handleUnlock_salt[OF g] .
  from first_unlock_with_salt[OF assms(1,2) g assms(4) c, of now now2 newSalt2 nonce2 now1]
  show ?thesis
    unfolding Let_def using item kept by auto
qed

text \<open>
  A first unlock and a second one, on the stand-in primitives.
\<close>

theorem first_unlock_witness:
  "session (handleUnlock samplePlatform (sampleClock 0) [7] [9] (js ''anypass'') sampleLocked)
     = Some \<lparr>key = js ''anypass'' @ [7], vault = createVault\<rparr>
   \<and> saltItem (handleUnlock samplePlatform (sampleClock 0) [7] [9] (js ''anypass'') sampleLocked)
     = Some [0, 7]
   \<and> session (handleUnlock samplePlatform (sampleClock 2) [8] [10] (js ''anypass'')
        (handleLock (sampleClock 1)
          (handleUnlock samplePlatform (sampleClock 0) [7] [9] (js ''anypass'') sampleLocked)))
     = Some \<lparr>key = js ''anypass'' @ [7], vault = createVault\<rparr>"
proof -
  have a: "loadVault sampleLocked = None" "\<not> putRejects sampleLocked" "saltKept samplePlatform sampleLocked"
    by (simp_all add: loadVault_def sampleLocked_def saltKept_def)
  have b: "base64Sound samplePlatform [7]"
    by (simp add: base64Sound_def samplePlatform_def)
  have c: "\<forall>k. codecSound samplePlatform createVault k [9]"
    by (simp add: codecSound_def samplePlatform_def)
  have g: "getOrCreateSalt samplePlatform [7] sampleLocked
      = (Inr [7], sampleLocked\<lparr>saltItem := Some [0, 7]\<rparr>)"
    by (simp add: getOrCreateSalt_def sampleLocked_def bytesToBase64_def samplePlatform_def)
  have item: "saltItem (handleUnlock samplePlatform (sampleClock 0) [7] [9] (js ''anypass'') sampleLocked)
     = Some [0, 7]"
    by (simp add: handleUnlock_salt[OF g])
  have k: "\<And>salt. base64ToBytes samplePlatform [0, 7] = Some salt \<Longrightarrow>
      deriveKey samplePlatform (js ''anypass'') salt = js ''anypass'' @ [7]"
    by (simp add: base64ToBytes_def deriveKey_def samplePlatform_def)
  from first_unlock[OF a b c, of "sampleClock 0" "js ''anypass''" "sampleClock 2" "[8]" "[10]" "sampleClock 1"]
  obtain salt s where
    h: "saltItem (handleUnlock samplePlatform (sampleClock 0) [7] [9] (js ''anypass'') sampleLocked) = Some s"
       "base64ToBytes samplePlatform s = Some salt"
       "session (handleUnlock samplePlatform (sampleClock 0) [7] [9] (js ''anypass'') sampleLocked)
          = Some \<lparr>key = deriveKey samplePlatform (js ''anypass'') salt, vault = createVault\<rparr>"
       "session (handleUnlock samplePlatform (sampleClock 2) [8] [10] (js ''anypass'')
          (handleLock (sampleClock 1)
            (handleUnlock samplePlatform (sampleClock 0) [7] [9] (js ''anypass'') sampleLocked)))
          = Some \<lparr>key = deriveKey samplePlatform (js ''anypass'') salt, vault = createVault\<rparr>"
    by blast
  from h(1) item have "s = [0, 7]" by simp
  with h(2) have "deriveKey samplePlatform (js ''anypass'') salt = js ''anypass'' @ [7]"
    using k by blast
  with h(3,4) item show ?thesis by simp
qed

text \<open>
  C5. The claim asks that a receipt without line items comes back from export and
  import with its date, store and total. The receipt of 2024-05-01 at SuperMart with
  the total 980 comes back with its date and store and the total 0: the export writes
  the total in the ninth of ten columns, and the importer reads the seventh.
\<close>

theorem exported_total_read_as_zero:
  "lineItems sampleReceipt = []
   \<and> map dateStore (importCsvToReceipts sampleClock sampleUuid (toCsv [sampleReceipt]))
        = [(js ''2024-05-01'', js ''SuperMart'')]
   \<and> map total [sampleReceipt] = [Fin 980]
   \<and> map total (importCsvToReceipts sampleClock sampleUuid (toCsv [sampleReceipt])) = [Fin 0]"
proof -
  have "dataLines (toCsv [sampleReceipt]) = map trimmedLine [sampleReceipt]"
    by (rule dataLines_toCsv) (simp add: sample_exportable)
  moreover have "trimmedLine sampleReceipt = js ''2024-05-01,SuperMart,groceries,,,,,,980,''"
    by (simp add: trimmedLine_def rowFront_def rowTail_def sampleReceipt_def escapeCell_Text
        escapeCell_def[of "Numeric _"] numberToString_980 includesStr_single orEmpty_def
        quote_def comma_def newline_def isWhiteSpace_def)
  ultimately have "map toRow (dataLines (toCsv [sampleReceipt]))
      = [\<lparr>date = js ''2024-05-01'', store = js ''SuperMart'', rowTotal = Fin 0, rowNote = None\<rparr>]"
    by (simp add: toRow_def parseCsvLine_def col_def orEmpty_def orElse_def quote_def comma_def Number_eval)
  then show ?thesis
    by (simp add: importCsvToReceipts_eq Let_def rowReceipt_def dateStore_def sampleReceipt_def)
qed


text \<open>
  C7. The claim, like the comment in the importer, groups the rows by date, store,
  total and note. The two lines \<open>a||b,c\<close> and \<open>a,b||c\<close> are rows that differ in
  date and store, and the importer returns one receipt for the two: it joins the four
  fields with \<open>||\<close> into one key text, which is the same for both.
\<close>

theorem import_key_text_collision:
  "card (rowTuple ` set (map toRow (dataLines collidingCsv))) = 2
   \<and> length (importCsvToReceipts sampleClock sampleUuid collidingCsv) = 1"
proof -
  have rows: "map toRow (dataLines collidingCsv) =
     [\<lparr>date = js ''a||b'', store = js ''c'', rowTotal = Fin 0, rowNote = None\<rparr>,
      \<lparr>date = js ''a'', store = js ''b||c'', rowTotal = Fin 0, rowNote = None\<rparr>]"
    by (simp add: collidingCsv_def import_eval)
  have "firstPerKey [] (map toRow (dataLines collidingCsv)) =
     [\<lparr>date = js ''a||b'', store = js ''c'', rowTotal = Fin 0, rowNote = None\<rparr>]"
    by (simp add: rows rowKey_def orEmpty_def)
  then have "length (importCsvToReceipts sampleClock sampleUuid collidingCsv) = 1"
    by (simp add: importCsvToReceipts_eq Let_def)
  moreover have "card (rowTuple ` set (map toRow (dataLines collidingCsv))) = 2"
    by (simp add: rows rowTuple_def)
  ultimately show ?thesis by simp
qed

text \<open>
  C8, as amended. The importer returns a list for every text, of at most one receipt
  for each data line. A total column that does not read as a number gives the total 0.
  The list is empty exactly when the text has no data line: no line that is not blank,
  or only a header line.
\<close>

theorem import_tolerant:
  "(importCsvToReceipts clock uuid csv = [] \<longleftrightarrow> dataLines csv = [])
   \<and> length (importCsvToReceipts clock uuid csv) \<le> length (dataLines csv)
   \<and> (\<forall>line s. col (parseCsvLine line) 6 = Some s \<and> Number s = NaN \<longrightarrow> rowTotal (toRow line) = Fin 0)
   \<and> (\<forall>line s. col (parseCsvLine line) 6 = None \<and> col (parseCsvLine line) 2 = Some s \<and> Number s = NaN
         \<longrightarrow> rowTotal (toRow line) = Fin 0)"
  by (simp add: import_empty_iff import_length toRow_def Let_def orElse_def)

text \<open>
  A header alone imports nothing, and \<open>abc\<close> in the total column reads as 0.
\<close>

theorem import_tolerant_witness:
  "importCsvToReceipts sampleClock sampleUuid (js ''date,store\<newline>'') = []
   \<and> rowTotal (toRow (js ''2024-05-01,Shop,,,,,abc,memo'')) = Fin 0"
proof -
  have a: "dataLines (js ''date,store\<newline>'') = []"
    by (simp add: import_eval)
  have b: "col (parseCsvLine (js ''2024-05-01,Shop,,,,,abc,memo'')) 6 = Some (js ''abc'')"
    by (simp add: import_eval)
  have c: "Number (js ''abc'') = NaN"
    by (simp add: Number_eval)
  show ?thesis
    using import_tolerant[of sampleClock sampleUuid "js ''date,store\<newline>''"] a b c by blast
qed

text \<open>
  C8 as stated fails on a text that is no CSV file at all: its one line becomes one
  receipt.
\<close>

theorem import_malformed_counterexample:
  "importCsvToReceipts sampleClock sampleUuid (js ''not a csv file'') \<noteq> []"
  by (simp add: import_empty_iff import_eval)

text \<open>
  C9, as amended. The total of the receipt that a saved draft puts into the vault is
  \<open>Number(t)\<close> for the text \<open>t\<close> of the draft's total field, and 0 where that is NaN.
  The total of every receipt that an import puts there is \<open>Number(t)\<close> for the text
  \<open>t\<close> of the total column of one of the data lines, and 0 where that is NaN or the
  line has no such column. So the total is never NaN, and it is negative, fractional or
  infinite whenever \<open>Number(t)\<close> is.
\<close>

theorem stored_totals_are_numbers:
  assumes "session st = Some s" and "\<not> putRejects st"
  shows "(\<exists>st' r. handleSaveReceipt P clock newId nonce st = (None, st')
            \<and> map_option (receipts \<circ> vault) (session st') = Some (r # receipts (vault s))
            \<and> total r = (if Number (draftTotal (draft st)) = NaN then Fin 0
                          else Number (draftTotal (draft st)))
            \<and> total r \<noteq> NaN)
       \<and> (\<exists>st' rs. handleImportCsv P clock uuid nonce csv st = (None, st')
            \<and> map_option (receipts \<circ> vault) (session st') = Some (rs @ receipts (vault s))
            \<and> (\<forall>r \<in> set rs. total r \<noteq> NaN
                  \<and> (\<exists>line \<in> set (dataLines csv).
                        total r = (case totalColumn line of
                                     None \<Rightarrow> Fin 0
                                   | Some t \<Rightarrow> if Number t = NaN then Fin 0 else Number t))))"
proof -
  have save: "\<exists>st' r. handleSaveReceipt P clock newId nonce st = (None, st')
            \<and> map_option (receipts \<circ> vault) (session st') = Some (r # receipts (vault s))
            \<and> total r = (if Number (draftTotal (draft st)) = NaN then Fin 0
                          else Number (draftTotal (draft st)))
            \<and> total r \<noteq> NaN"
    using assms
    by (simp add: handleSaveReceipt_def Let_def persistVault_ok draftReceipt_total
        draftReceipt_total_not_NaN)
  have "\<forall>r \<in> set (importCsvToReceipts clock uuid csv). total r \<noteq> NaN
          \<and> (\<exists>line \<in> set (dataLines csv).
                total r = (case totalColumn line of
                             None \<Rightarrow> Fin 0
                           | Some t \<Rightarrow> if Number t = NaN then Fin 0 else Number t))"
    using import_total_not_NaN[of _ clock uuid csv] import_total_read[of _ clock uuid csv]
    by blast
  then have imp: "\<exists>st' rs. handleImportCsv P clock uuid nonce csv st = (None, st')
            \<and> map_option (receipts \<circ> vault) (session st') = Some (rs @ receipts (vault s))
            \<and> (\<forall>r \<in> set rs. total r \<noteq> NaN
                  \<and> (\<exists>line \<in> set (dataLines csv).
                        total r = (case totalColumn line of
                                     None \<Rightarrow> Fin 0
                                   | Some t \<Rightarrow> if Number t = NaN then Fin 0 else Number t)))"
    using assms by (simp add: handleImportCsv_def Let_def persistVault_ok)
  from save imp show ?thesis ..
qed

text \<open>
  The draft with the total \<open>-5\<close> saved, and a file imported, into the fresh vault.
\<close>

theorem stored_totals_are_numbers_witness:
  "(\<exists>st' r. handleSaveReceipt samplePlatform sampleClock (sampleUuid 0) [9] negativeDraft = (None, st')
      \<and> map_option (receipts \<circ> vault) (session st') = Some [r] \<and> total r = Fin (- 5))
   \<and> (\<exists>st' rs. handleImportCsv samplePlatform sampleClock sampleUuid [9] repeatedCsv sampleUnlocked = (None, st')
      \<and> map_option (receipts \<circ> vault) (session st') = Some rs \<and> (\<forall>r \<in> set rs. total r \<noteq> NaN))"
proof -
  have s: "session sampleUnlocked = Some \<lparr>key = [1, 2, 3], vault = createVault\<rparr>" "\<not> putRejects sampleUnlocked"
    by (simp_all add: sampleUnlocked_def sampleLocked_def)
  have n: "session negativeDraft = Some \<lparr>key = [1, 2, 3], vault = createVault\<rparr>" "\<not> putRejects negativeDraft"
    and d: "draftTotal (draft negativeDraft) = js ''-5''"
    by (simp_all add: negativeDraft_def sampleUnlocked_def sampleLocked_def)
  have five: "Number (js ''-5'') = Fin (- 5)" by (simp add: Number_eval)
  from stored_totals_are_numbers[OF n, of samplePlatform sampleClock "sampleUuid 0" "[9]" sampleUuid repeatedCsv,
      THEN conjunct1]
  have a: "\<exists>st' r. handleSaveReceipt samplePlatform sampleClock (sampleUuid 0) [9] negativeDraft = (None, st')
      \<and> map_option (receipts \<circ> vault) (session st') = Some [r] \<and> total r = Fin (- 5)"
    unfolding d five by (auto simp: createVault_def)
  from stored_totals_are_numbers[OF s, of samplePlatform sampleClock "sampleUuid 0" "[9]" sampleUuid repeatedCsv,
      THEN conjunct2]
  have b: "\<exists>st' rs. handleImportCsv samplePlatform sampleClock sampleUuid [9] repeatedCsv sampleUnlocked = (None, st')
      \<and> map_option (receipts \<circ> vault) (session st') = Some rs \<and> (\<forall>r \<in> set rs. total r \<noteq> NaN)"
    by (auto simp: createVault_def)
  from a b show ?thesis ..
qed

text \<open>
  C9 as stated fails for the draft total \<open>-5\<close> and for the CSV total \<open>-1.5\<close>:
  both are stored as they are.
\<close>

theorem totals_counterexample:
  "session negativeDraft \<noteq> None
   \<and> map_option (map total \<circ> receipts \<circ> vault)
        (session (snd (handleSaveReceipt samplePlatform sampleClock (sampleUuid 0) [9] negativeDraft)))
      = Some [Fin (- 5)]
   \<and> \<not> nonNegativeInteger (Fin (- 5))
   \<and> map total (importCsvToReceipts sampleClock sampleUuid negativeCsv) = [Fin (- 3 / 2)]
   \<and> \<not> nonNegativeInteger (Fin (- 3 / 2))"
proof -
  have n: "\<not> putRejects negativeDraft" "session negativeDraft = Some \<lparr>key = [1, 2, 3], vault = createVault\<rparr>"
     "draftTotal (draft negativeDraft) = js ''-5''"
    by (simp_all add: negativeDraft_def sampleUnlocked_def sampleLocked_def)
  have "Number (js ''-5'') = Fin (- 5)" by (simp add: Number_eval)
  then have a: "map_option (map total \<circ> receipts \<circ> vault)
        (session (snd (handleSaveReceipt samplePlatform sampleClock (sampleUuid 0) [9] negativeDraft)))
      = Some [Fin (- 5)]"
    using n by (simp add: handleSaveReceipt_def Let_def persistVault_ok draftReceipt_def orElse_def createVault_def)
  have rows: "map toRow (dataLines negativeCsv) =
     [\<lparr>date = js ''2024-05-01'', store = js ''Shop'', rowTotal = Fin (- 3 / 2), rowNote = None\<rparr>]"
    by (simp add: negativeCsv_def import_eval Number_eval)
  have b: "map total (importCsvToReceipts sampleClock sampleUuid negativeCsv) = [Fin (- 3 / 2)]"
    by (simp add: importCsvToReceipts_eq Let_def rows rowReceipt_def)
  show ?thesis using a b n by (simp add: nonNegativeInteger_def)
qed

text \<open>
  C10. The claim asks that a line of escaped cells parses back to the cells. The one
  cell that is a double quote (a store name, say) is written as four double quotes and
  parsed back as two: the parser takes the opening quote and the first quote of the
  body for a doubled quote, since it looks for one before it looks at \<open>inQuotes\<close>.
\<close>

theorem quote_cell_read_back:
  "newline \<notin> set [quote]
   \<and> join [comma] (map escapeCell (map Text [[quote]])) = [quote, quote, quote, quote]
   \<and> parseCsvLine (join [comma] (map escapeCell (map Text [[quote]]))) = [[quote, quote]]"
  by (simp add: parseCsvLine_def escapeCell_Text quote_def newline_def)

end
